theory Spec2Isabelle
  imports Main "HOL-Library.Word"
begin

section \<open>Python values of the minidump parser\<close>

text \<open>
  The development embeds \<^verbatim>\<open>minidump/minidumpfile.py\<close> (class \<^verbatim>\<open>MinidumpFile\<close>).
  Bytes are 8-bit words, Python's unbounded integers that the parser only ever builds from
  unsigned reads are naturals, and a Python \<^verbatim>\<open>str\<close> is its list of code points.
  Every exception the parser can meet is a value of \<open>error\<close>; a method that may raise
  returns \<open>error + result\<close>, with \<open>Inl\<close> for the exception.
\<close>

type_synonym byte = "8 word"

type_synonym pystr = "nat list"

definition py_str :: "string \<Rightarrow> pystr" where
  "py_str s = map of_char s"

datatype error =
    ContainerFormatError
  | AddressSpaceError
  | UnmappedAddressError
  | TruncatedReadError
  | AttributeError
  | IndexError
  | TypeError
  | UnicodeDecodeError
  | StreamDecodeError nat

text \<open>Sequencing of calls that may raise: the first exception ends the computation.\<close>

definition and_then :: "'e + 'a \<Rightarrow> ('a \<Rightarrow> 'e + 'b) \<Rightarrow> 'e + 'b" where
  "and_then m f = (case m of Inl e \<Rightarrow> Inl e | Inr x \<Rightarrow> f x)"

section \<open>Data model\<close>

text \<open>The byte source (\<^verbatim>\<open>self.file_handle\<close>): a buffer and its cursor, as \<^verbatim>\<open>io.BytesIO\<close>.\<close>

record BytesIO =
  content :: "byte list"
  position :: nat

definition seek :: "BytesIO \<Rightarrow> nat \<Rightarrow> BytesIO" where
  "seek fh off = fh\<lparr>position := off\<rparr>"

record MinidumpHeader =
  NumberOfStreams :: nat
  StreamDirectoryRva :: nat

text \<open>
  The members of \<^verbatim>\<open>MINIDUMP_STREAM_TYPE\<close> that the dispatcher names, in the order of its
  branches; the enumeration itself is declared in \<^verbatim>\<open>minidump/constants.py\<close>, so every
  other member is \<open>OtherStream\<close> with its tag value.
\<close>

datatype MINIDUMP_STREAM_TYPE =
    UnusedStream
  | ReservedStream0
  | ReservedStream1
  | ThreadListStream
  | ModuleListStream
  | MemoryListStream
  | SystemInfoStream
  | ThreadExListStream
  | Memory64ListStream
  | CommentStreamA
  | CommentStreamW
  | ExceptionStream
  | HandleDataStream
  | FunctionTableStream
  | UnloadedModuleListStream
  | MiscInfoStream
  | MemoryInfoListStream
  | ThreadInfoListStream
  | SystemMemoryInfoStream
  | JavaScriptDataStream
  | ProcessVmCountersStream
  | TokenStream
  | OtherStream nat

record MINIDUMP_LOCATION_DESCRIPTOR =
  DataSize :: nat
  Rva :: nat

record MINIDUMP_DIRECTORY =
  StreamType :: MINIDUMP_STREAM_TYPE
  Location :: MINIDUMP_LOCATION_DESCRIPTOR

text \<open>
  \<^verbatim>\<open>PROCESSOR_ARCHITECTURE\<close>: the two members the context dispatcher names, every other
  member with its tag value.
\<close>

datatype PROCESSOR_ARCHITECTURE = AMD64 | INTEL | OtherArchitecture nat

record MinidumpSystemInfo =
  ProcessorArchitecture :: PROCESSOR_ARCHITECTURE

text \<open>
  A decoded register context. The two layouts are decoded by \<^verbatim>\<open>CONTEXT.parse\<close> and
  \<^verbatim>\<open>WOW64_CONTEXT.parse\<close>; their contents are opaque values of type \<open>'s\<close>, as are the
  objects of all stream decoders the dispatcher only stores.
\<close>

datatype 's context_object = CONTEXT 's | WOW64_CONTEXT 's

record 's MINIDUMP_THREAD =
  Teb :: nat
  ThreadContext :: MINIDUMP_LOCATION_DESCRIPTOR
  ContextObject :: "'s context_object option"

text \<open>
  The list objects of the stream decoders. The parser reads \<^verbatim>\<open>self.threads.threads\<close>,
  \<^verbatim>\<open>self.modules.modules\<close> and \<^verbatim>\<open>self.memory_segments.memory_segments\<close>; these
  attributes are the fields \<open>tl_threads\<close>, \<open>ml_modules\<close>, \<open>mem_segments\<close> and
  \<open>mem64_segments\<close>, prefixed because the file object has attributes of the same names.
\<close>

record 's MinidumpThreadList =
  tl_threads :: "'s MINIDUMP_THREAD list"

record 's MinidumpModuleList =
  ml_modules :: "'s list"

record MinidumpMemorySegment =
  start_virtual_address :: nat
  Memory :: MINIDUMP_LOCATION_DESCRIPTOR

record MinidumpMemoryList =
  mem_segments :: "MinidumpMemorySegment list"

record MinidumpMemorySegment64 =
  StartOfMemoryRange :: nat
  DataSize64 :: nat

record MinidumpMemory64List =
  BaseRva :: nat
  mem64_segments :: "MinidumpMemorySegment64 list"

text \<open>
  The value of the expression that \<^verbatim>\<open>__parse_peb\<close> stores in \<^verbatim>\<open>self.x64\<close>. Python's
  \<^verbatim>\<open>or\<close> and \<^verbatim>\<open>and\<close> return one of their operands, so the flag is a boolean,
  \<^verbatim>\<open>None\<close>, or the 32-bit region list object itself.
\<close>

datatype x64_value = PyBool bool | PyNone | PyMemoryList MinidumpMemoryList

record env_var =
  env_name :: pystr
  env_value :: pystr

text \<open>
  The instance attributes of \<^verbatim>\<open>MinidumpFile\<close>. Those of \<^verbatim>\<open>__init__\<close> come first; the
  attributes from \<open>x64\<close> on are created by \<^verbatim>\<open>__parse_peb\<close> and do not exist before
  (\<open>None\<close> here).
\<close>

record 's MinidumpFile =
  filename :: "string option"
  file_handle :: BytesIO
  header :: "MinidumpHeader option"
  directories :: "MINIDUMP_DIRECTORY list"
  threads_ex :: "'s option"
  threads :: "'s MinidumpThreadList option"
  modules :: "'s MinidumpModuleList option"
  memory_segments :: "MinidumpMemoryList option"
  memory_segments_64 :: "MinidumpMemory64List option"
  sysinfo :: "MinidumpSystemInfo option"
  comment_a :: "'s option"
  comment_w :: "'s option"
  exception :: "'s option"
  handles :: "'s option"
  unloaded_modules :: "'s option"
  misc_info :: "'s option"
  memory_info :: "'s option"
  thread_info :: "'s option"
  x64 :: "x64_value option"
  peb_address :: "nat option"
  being_debugged :: "nat option"
  image_base_address :: "nat option"
  image_path :: "pystr option"
  command_line :: "pystr option"
  window_title :: "pystr option"
  dll_path :: "pystr option"
  current_directory :: "pystr option"
  standard_input :: "nat option"
  standard_output :: "nat option"
  standard_error :: "nat option"
  environment_variables :: "env_var list option"

section \<open>Collaborators outside the file\<close>

text \<open>
  The field offsets of one row of \<^verbatim>\<open>OFFSETS\<close> (\<^verbatim>\<open>minidump/constants.py\<close>), by the keys
  the walker uses.
\<close>

record offsets =
  off_peb :: nat
  off_being_debugged :: nat
  off_image_base_address :: nat
  off_process_parameters :: nat
  off_image_path :: nat
  off_command_line :: nat
  off_window_title :: nat
  off_dll_path :: nat
  off_current_directory :: nat
  off_standard_input :: nat
  off_standard_output :: nat
  off_standard_error :: nat
  off_environment_variables :: nat
  off_buffer :: nat

text \<open>
  Everything \<^verbatim>\<open>minidumpfile.py\<close> imports from the rest of the package is a parameter:
  the stream decoders (each takes the directory entry and the byte source, and returns the
  decoded object with the byte source as it left it, or raises), the two register-context
  decoders (whose exception the caller catches, so they return the byte source as they left
  it in both cases), the constant tables indexed by the bitness flag, the truth value Python gives to
  the list and system-info objects (\<^verbatim>\<open>__bool__\<close>/\<^verbatim>\<open>__len__\<close> of their classes), and
  the \<^verbatim>\<open>__str__\<close> methods the summary renderer calls.
\<close>

record 's externals =
  MinidumpHeader_parse :: "BytesIO \<Rightarrow> error + (MinidumpHeader \<times> BytesIO)"
  MINIDUMP_DIRECTORY_parse :: "BytesIO \<Rightarrow> error + (MINIDUMP_DIRECTORY option \<times> BytesIO)"
  get_stream_type_value :: "BytesIO \<Rightarrow> error + (nat \<times> BytesIO)"
  MinidumpThreadList_parse ::
    "MINIDUMP_DIRECTORY \<Rightarrow> BytesIO \<Rightarrow> error + ('s MinidumpThreadList \<times> BytesIO)"
  MinidumpModuleList_parse ::
    "MINIDUMP_DIRECTORY \<Rightarrow> BytesIO \<Rightarrow> error + ('s MinidumpModuleList \<times> BytesIO)"
  MinidumpMemoryList_parse ::
    "MINIDUMP_DIRECTORY \<Rightarrow> BytesIO \<Rightarrow> error + (MinidumpMemoryList \<times> BytesIO)"
  MinidumpSystemInfo_parse ::
    "MINIDUMP_DIRECTORY \<Rightarrow> BytesIO \<Rightarrow> error + (MinidumpSystemInfo \<times> BytesIO)"
  MinidumpThreadExList_parse :: "MINIDUMP_DIRECTORY \<Rightarrow> BytesIO \<Rightarrow> error + ('s \<times> BytesIO)"
  MinidumpMemory64List_parse ::
    "MINIDUMP_DIRECTORY \<Rightarrow> BytesIO \<Rightarrow> error + (MinidumpMemory64List \<times> BytesIO)"
  CommentStreamA_parse :: "MINIDUMP_DIRECTORY \<Rightarrow> BytesIO \<Rightarrow> error + ('s \<times> BytesIO)"
  CommentStreamW_parse :: "MINIDUMP_DIRECTORY \<Rightarrow> BytesIO \<Rightarrow> error + ('s \<times> BytesIO)"
  ExceptionList_parse :: "MINIDUMP_DIRECTORY \<Rightarrow> BytesIO \<Rightarrow> error + ('s \<times> BytesIO)"
  MinidumpHandleDataStream_parse ::
    "MINIDUMP_DIRECTORY \<Rightarrow> BytesIO \<Rightarrow> error + ('s \<times> BytesIO)"
  MinidumpUnloadedModuleList_parse ::
    "MINIDUMP_DIRECTORY \<Rightarrow> BytesIO \<Rightarrow> error + ('s \<times> BytesIO)"
  MinidumpMiscInfo_parse :: "MINIDUMP_DIRECTORY \<Rightarrow> BytesIO \<Rightarrow> error + ('s \<times> BytesIO)"
  MinidumpMemoryInfoList_parse ::
    "MINIDUMP_DIRECTORY \<Rightarrow> BytesIO \<Rightarrow> error + ('s \<times> BytesIO)"
  MinidumpThreadInfoList_parse ::
    "MINIDUMP_DIRECTORY \<Rightarrow> BytesIO \<Rightarrow> error + ('s \<times> BytesIO)"
  CONTEXT_parse :: "BytesIO \<Rightarrow> (error + 's) \<times> BytesIO"
  WOW64_CONTEXT_parse :: "BytesIO \<Rightarrow> (error + 's) \<times> BytesIO"
  OFFSETS :: "x64_value \<Rightarrow> error + offsets"
  POINTER_SIZE :: "x64_value \<Rightarrow> error + nat"
  truth_MemoryList :: "MinidumpMemoryList \<Rightarrow> bool"
  truth_ThreadList :: "'s MinidumpThreadList \<Rightarrow> bool"
  truth_SystemInfo :: "MinidumpSystemInfo \<Rightarrow> bool"
  str_header :: "MinidumpHeader \<Rightarrow> pystr"
  str_sysinfo :: "MinidumpSystemInfo \<Rightarrow> pystr"
  str_directory :: "MINIDUMP_DIRECTORY \<Rightarrow> pystr"
  str_module :: "'s \<Rightarrow> pystr"
  str_segment :: "MinidumpMemorySegment \<Rightarrow> pystr"
  str_segment64 :: "MinidumpMemorySegment64 \<Rightarrow> pystr"

section \<open>Bitness inference\<close>

text \<open>Python's truth value of the objects the flag can be.\<close>

fun truth :: "'s externals \<Rightarrow> x64_value \<Rightarrow> bool" where
  "truth ext (PyBool b) = b"
| "truth ext PyNone = False"
| "truth ext (PyMemoryList ml) = truth_MemoryList ext ml"

text \<open>
  Modelled from the spec: the class \<^verbatim>\<open>MinidumpMemoryList\<close> is not in the file, and
  \<^verbatim>\<open>__parse_peb\<close> iterates the list object itself. The 32-bit memory region list is an
  ``ordered sequence of {StartOfMemoryRange, Memory}'', so iterating it yields its regions
  in order.
\<close>

definition iter_MemoryList :: "MinidumpMemoryList \<Rightarrow> MinidumpMemorySegment list" where
  "iter_MemoryList ml = mem_segments ml"

text \<open>
  The first statement of \<^verbatim>\<open>__parse_peb\<close>:
  \<^verbatim>\<open>(self.memory_segments_64 is not None) or (self.memory_segments and any(...))\<close>.
\<close>

definition x64_flag :: "'s externals \<Rightarrow> 's MinidumpFile \<Rightarrow> x64_value" where
  "x64_flag ext mf =
     (if memory_segments_64 mf \<noteq> None then PyBool True
      else (case memory_segments mf of
              None \<Rightarrow> PyNone
            | Some ml \<Rightarrow>
                if \<not> truth_MemoryList ext ml then PyMemoryList ml
                else PyBool (list_ex (\<lambda>mem. start_virtual_address mem > 0xFFFFFFFF)
                               (iter_MemoryList ml))))"

section \<open>Python primitives\<close>

text \<open>\<^verbatim>\<open>int.from_bytes(bs, "little")\<close>.\<close>

definition from_bytes_little :: "byte list \<Rightarrow> nat" where
  "from_bytes_little bs = foldr (\<lambda>b n. unat b + 256 * n) bs 0"

text \<open>
  \<^verbatim>\<open>bs.find(b"\x00\x00")\<close>: the least index at which two zero bytes follow each other,
  at any alignment, and \<open>-1\<close> when there is none. The second argument is the index of
  the head of the list in the whole buffer.
\<close>

fun find_from :: "byte list \<Rightarrow> nat \<Rightarrow> int" where
  "find_from (a # b # bs) i = (if a = 0 \<and> b = 0 then int i else find_from (b # bs) (Suc i))"
| "find_from bs i = - 1"

definition find_nul_nul :: "byte list \<Rightarrow> int" where
  "find_nul_nul bs = find_from bs 0"

text \<open>
  \<^verbatim>\<open>bs.decode("utf-16")\<close> with strict error handling. A 16-bit unit outside the surrogate
  range is a code point, a high surrogate followed by a low one is a code point above
  \<open>0xFFFF\<close>, and an odd byte at the end or any other use of a surrogate raises
  \<^verbatim>\<open>UnicodeDecodeError\<close>. A leading byte-order mark is consumed and selects the byte
  order; without one the codec takes the byte order of the host, little-endian here.
\<close>

definition utf16_unit :: "bool \<Rightarrow> byte \<Rightarrow> byte \<Rightarrow> nat" where
  "utf16_unit big_endian b0 b1 =
     (if big_endian then 256 * unat b0 + unat b1 else unat b0 + 256 * unat b1)"

definition is_surrogate :: "nat \<Rightarrow> bool" where
  "is_surrogate u = (0xD800 \<le> u \<and> u \<le> 0xDFFF)"

definition is_high_surrogate :: "nat \<Rightarrow> bool" where
  "is_high_surrogate u = (0xD800 \<le> u \<and> u \<le> 0xDBFF)"

definition is_low_surrogate :: "nat \<Rightarrow> bool" where
  "is_low_surrogate u = (0xDC00 \<le> u \<and> u \<le> 0xDFFF)"

fun utf16_code_points :: "bool \<Rightarrow> byte list \<Rightarrow> error + pystr" where
  "utf16_code_points be [] = Inr []"
| "utf16_code_points be [b0] = Inl UnicodeDecodeError"
| "utf16_code_points be (b0 # b1 # c0 # c1 # bs) =
     (let u = utf16_unit be b0 b1; v = utf16_unit be c0 c1 in
      if \<not> is_surrogate u then
        and_then (utf16_code_points be (c0 # c1 # bs)) (\<lambda>s. Inr (u # s))
      else if is_high_surrogate u \<and> is_low_surrogate v then
        and_then (utf16_code_points be bs)
          (\<lambda>s. Inr ((0x10000 + (u - 0xD800) * 0x400 + (v - 0xDC00)) # s))
      else Inl UnicodeDecodeError)"
| "utf16_code_points be (b0 # b1 # bs) =
     (let u = utf16_unit be b0 b1 in
      if \<not> is_surrogate u then and_then (utf16_code_points be bs) (\<lambda>s. Inr (u # s))
      else Inl UnicodeDecodeError)"

definition decode_utf16 :: "byte list \<Rightarrow> error + pystr" where
  "decode_utf16 bs =
     (if take 2 bs = [0xFF, 0xFE] then utf16_code_points False (drop 2 bs)
      else if take 2 bs = [0xFE, 0xFF] then utf16_code_points True (drop 2 bs)
      else utf16_code_points False bs)"

text \<open>\<^verbatim>\<open>s.split(sep)\<close> for a separator of one character: a cut at every occurrence.\<close>

fun str_split :: "pystr \<Rightarrow> nat \<Rightarrow> pystr list" where
  "str_split [] sep = [[]]"
| "str_split (c # cs) sep =
     (if c = sep then [] # str_split cs sep
      else (case str_split cs sep of [] \<Rightarrow> [[c]] | p # ps \<Rightarrow> (c # p) # ps))"

text \<open>\<^verbatim>\<open>xs[i]\<close> for an index that is not negative.\<close>

definition item :: "'a list \<Rightarrow> nat \<Rightarrow> error + 'a" where
  "item xs i = (if i < length xs then Inr (xs ! i) else Inl IndexError)"

section \<open>The address space and its reader\<close>

text \<open>
  One mapped region of the address space: the virtual addresses from \<open>start_address\<close>
  up to, not including, \<open>end_address\<close>, whose bytes are in the file from
  \<open>file_offset\<close> on.
\<close>

record region =
  start_address :: nat
  end_address :: nat
  file_offset :: nat

text \<open>The calls made on a reader, kept in call order.\<close>

datatype reader_call = Move nat | Read nat

text \<open>
  The cursor \<^verbatim>\<open>buff_reader\<close>. The parser reads its attributes
  \<^verbatim>\<open>current_segment\<close> (then \<^verbatim>\<open>end_address\<close> of it) and \<^verbatim>\<open>current_position\<close>;
  \<open>calls\<close> records every \<^verbatim>\<open>move\<close> and \<^verbatim>\<open>read\<close> made on the reader.
\<close>

record BufferedReader =
  regions :: "region list"
  source :: "byte list"
  current_segment :: "region option"
  current_position :: nat
  calls :: "reader_call list"

text \<open>
  Modelled from the spec: the 64-bit region list stores no file offsets; ``the first
  entry's data immediately follows the list's own descriptor table; subsequent entries'
  data is contiguous after the prior entry's bytes'', so the offsets are a running sum
  that starts at the base offset of the list.
\<close>

fun regions_64 :: "nat \<Rightarrow> MinidumpMemorySegment64 list \<Rightarrow> region list" where
  "regions_64 off [] = []"
| "regions_64 off (s # ss) =
     \<lparr>start_address = StartOfMemoryRange s,
      end_address = StartOfMemoryRange s + DataSize64 s,
      file_offset = off\<rparr> # regions_64 (off + DataSize64 s) ss"

text \<open>
  Modelled from the spec: in the 32-bit region list ``each entry already carries an
  explicit file offset''.
\<close>

definition region_32 :: "MinidumpMemorySegment \<Rightarrow> region" where
  "region_32 m =
     \<lparr>start_address = start_virtual_address m,
      end_address = start_virtual_address m + DataSize (Memory m),
      file_offset = Rva (Memory m)\<rparr>"

definition overlap :: "region \<Rightarrow> region \<Rightarrow> bool" where
  "overlap r1 r2 = (start_address r1 < end_address r2 \<and> start_address r2 < end_address r1)"

fun disjoint_regions :: "region list \<Rightarrow> bool" where
  "disjoint_regions [] = True"
| "disjoint_regions (r # rs) = (list_all (\<lambda>r'. \<not> overlap r r') rs \<and> disjoint_regions rs)"

text \<open>
  Modelled from the spec: \<^verbatim>\<open>get_reader\<close> and \<^verbatim>\<open>get_buffered_reader\<close> are methods of
  \<^verbatim>\<open>MinidumpFileReader\<close>, which is not in the file. ``If a 64-bit memory-region list is
  present, it takes precedence; else, use the 32-bit memory-region list''; construction
  ``fails with AddressSpaceError if two regions' ranges overlap'', and memory-region data
  from which no address space can be built (neither list is present) is malformed.
\<close>

definition get_buffered_reader :: "'s MinidumpFile \<Rightarrow> error + BufferedReader" where
  "get_buffered_reader mf =
     (case (case memory_segments_64 mf of
              Some m64 \<Rightarrow> Some (regions_64 (BaseRva m64) (mem64_segments m64))
            | None \<Rightarrow> map_option (\<lambda>ml. map region_32 (mem_segments ml)) (memory_segments mf))
      of None \<Rightarrow> Inl AddressSpaceError
       | Some rs \<Rightarrow>
           if disjoint_regions rs then
             Inr \<lparr>regions = rs, source = content (file_handle mf), current_segment = None,
                  current_position = 0, calls = []\<rparr>
           else Inl AddressSpaceError)"

text \<open>
  Modelled from the spec: \<^verbatim>\<open>move\<close> is the reader's seek by virtual address; it ``fails
  with UnmappedAddressError if the address is not mapped'', and otherwise selects the
  region that contains the address.
\<close>

definition move :: "BufferedReader \<Rightarrow> nat \<Rightarrow> error + BufferedReader" where
  "move rd address =
     (case find (\<lambda>r. start_address r \<le> address \<and> address < end_address r) (regions rd) of
        None \<Rightarrow> Inl UnmappedAddressError
      | Some r \<Rightarrow>
          Inr (rd\<lparr>current_segment := Some r, current_position := address,
                  calls := calls rd @ [Move address]\<rparr>))"

text \<open>
  Modelled from the spec: \<^verbatim>\<open>read(n)\<close> returns ``up to n bytes starting at the current
  position''; ``if n exceeds the current region's remaining bytes, return only the bytes
  available up to that boundary''. The bytes come from the file at the region's offset, and
  \<^verbatim>\<open>TruncatedReadError\<close> is raised when the file ends before them. The cursor moves past
  what was read. A read on a reader that was never moved has no region to read from.
\<close>

definition read :: "BufferedReader \<Rightarrow> nat \<Rightarrow> error + (byte list \<times> BufferedReader)" where
  "read rd n =
     (case current_segment rd of
        None \<Rightarrow> Inl UnmappedAddressError
      | Some r \<Rightarrow>
          (let k = min n (end_address r - current_position rd);
               off = file_offset r + (current_position rd - start_address r)
           in if length (source rd) < off + k then Inl TruncatedReadError
              else Inr (take k (drop off (source rd)),
                        rd\<lparr>current_position := current_position rd + k,
                           calls := calls rd @ [Read n]\<rparr>)))"

text \<open>
  What a reader that stands at address \<open>a\<close> of region \<open>r\<close> gets when it reads the
  rest of the region from the file \<open>src\<close>.
\<close>

definition region_bytes :: "byte list \<Rightarrow> region \<Rightarrow> nat \<Rightarrow> byte list" where
  "region_bytes src r a =
     take (end_address r - a) (drop (file_offset r + (a - start_address r)) src)"

section \<open>The PEB walker\<close>

text \<open>\<^verbatim>\<open>__read_unicode_string_property(buff_reader, addr, x64)\<close>.\<close>

definition read_unicode_string_property ::
  "'s externals \<Rightarrow> BufferedReader \<Rightarrow> nat \<Rightarrow> x64_value \<Rightarrow> error + (pystr \<times> BufferedReader)" where
  "read_unicode_string_property ext buff_reader addr x64v =
     and_then (move buff_reader addr) (\<lambda>rd1.
     and_then (read rd1 2) (\<lambda>(bs, rd2).
     let string_length = from_bytes_little bs in
     if string_length = 0 then Inr ([], rd2)
     else
       and_then (OFFSETS ext x64v) (\<lambda>offs.
       and_then (move rd2 (addr + off_buffer offs)) (\<lambda>rd3.
       and_then (POINTER_SIZE ext x64v) (\<lambda>psize.
       and_then (read rd3 psize) (\<lambda>(bs', rd4).
       let buff_va = from_bytes_little bs' in
       and_then (move rd4 buff_va) (\<lambda>rd5.
       and_then (read rd5 string_length) (\<lambda>(data, rd6).
       and_then (decode_utf16 data) (\<lambda>s. Inr (s, rd6))))))))))"

text \<open>
  \<^verbatim>\<open>buff_reader.read(buff_reader.current_segment.end_address - buff_reader.current_position)\<close>:
  the rest of the current region.
\<close>

definition read_rest :: "BufferedReader \<Rightarrow> error + (byte list \<times> BufferedReader)" where
  "read_rest rd =
     (case current_segment rd of
        None \<Rightarrow> Inl AttributeError
      | Some r \<Rightarrow> read rd (end_address r - current_position rd))"

text \<open>
  The loop that scans the environment block (the \<^verbatim>\<open>while\<close> of \<^verbatim>\<open>__parse_peb\<close>), entered
  with the buffer just read. It returns the list \<^verbatim>\<open>self.environment_variables\<close> and the
  reader. Every round moves the cursor to a higher address that is mapped, so the loop
  ends at the latest when the address leaves the address space.
\<close>

definition top_address :: "region list \<Rightarrow> nat" where
  "top_address rs = foldr (\<lambda>r m. max (end_address r) m) rs 0"

lemma and_then_cong [fundef_cong]:
  "m = m' \<Longrightarrow> (\<And>x. m' = Inr x \<Longrightarrow> f x = f' x) \<Longrightarrow> and_then m f = and_then m' f'"
  by (cases m') (simp_all add: and_then_def)

lemma find_region_below_top:
  "find (\<lambda>r. start_address r \<le> a \<and> a < end_address r) rs = Some r \<Longrightarrow> a < top_address rs"
  by (induction rs) (auto simp: top_address_def split: if_splits)

lemma move_below_top: "move rd a = Inr rd' \<Longrightarrow> a < top_address (regions rd)"
  by (auto simp: move_def dest: find_region_below_top split: option.splits)

lemma move_regions: "move rd a = Inr rd' \<Longrightarrow> regions rd' = regions rd"
  by (auto simp: move_def split: option.splits)

lemma move_within: "move rd a = Inr rd' \<Longrightarrow> a < top_address (regions rd) \<and> regions rd' = regions rd"
  by (simp add: move_below_top move_regions)

lemma read_regions: "read rd n = Inr (bs, rd') \<Longrightarrow> regions rd' = regions rd"
  by (auto simp: read_def Let_def split: option.splits if_splits)

lemma read_rest_regions: "read_rest rd = Inr (bs, rd') \<Longrightarrow> regions rd' = regions rd"
  by (auto simp: read_rest_def dest: read_regions split: option.splits)

function environment_loop ::
  "BufferedReader \<Rightarrow> nat \<Rightarrow> byte list \<Rightarrow> env_var list \<Rightarrow> error + (env_var list \<times> BufferedReader)"
  where
  "environment_loop buff_reader environment_va env_buffer vars =
     (let env_len = find_nul_nul env_buffer in
      if env_len \<noteq> 0 \<and> env_len \<noteq> - 1 then
        and_then (decode_utf16 (take (nat env_len) env_buffer @ [0])) (\<lambda>decoded_env.
        and_then (item (str_split decoded_env (of_char CHR ''='')) 0) (\<lambda>name.
        and_then (item (str_split decoded_env (of_char CHR ''='')) 1) (\<lambda>val.
        and_then (move buff_reader (environment_va + (length decoded_env + 1) * 2)) (\<lambda>rd1.
        and_then (read_rest rd1) (\<lambda>(buf, rd2).
          environment_loop rd2
            (environment_va + (length decoded_env + 1) * 2) buf
            (vars @ [\<lparr>env_name = name, env_value = val\<rparr>]))))))
      else Inr (vars, buff_reader))"
  by pat_completeness auto
termination
  by (relation "measure (\<lambda>(rd, va, buf, vars). top_address (regions rd) - va)")
     (auto dest!: move_within read_rest_regions)

declare environment_loop.simps [simp del]

text \<open>
  \<^verbatim>\<open>self.threads.threads[0]\<close>: an attribute of \<^verbatim>\<open>None\<close> when there is no thread list,
  an index out of range when the list is empty.
\<close>

definition first_thread :: "'s MinidumpFile \<Rightarrow> error + 's MINIDUMP_THREAD" where
  "first_thread mf =
     (case threads mf of
        None \<Rightarrow> Inl AttributeError
      | Some thread_list \<Rightarrow> item (tl_threads thread_list) 0)"

text \<open>
  A pointer-sized little-endian read at an address:
  \<^verbatim>\<open>buff_reader.move(a); int.from_bytes(buff_reader.read(POINTER_SIZE[self.x64]), "little")\<close>.
\<close>

definition read_pointer ::
  "'s externals \<Rightarrow> BufferedReader \<Rightarrow> nat \<Rightarrow> x64_value \<Rightarrow> error + (nat \<times> BufferedReader)" where
  "read_pointer ext rd a x64v =
     and_then (move rd a) (\<lambda>rd1.
     and_then (POINTER_SIZE ext x64v) (\<lambda>psize.
     and_then (read rd1 psize) (\<lambda>(bs, rd2). Inr (from_bytes_little bs, rd2))))"

text \<open>
  The environment block of \<^verbatim>\<open>__parse_peb\<close>, from \<^verbatim>\<open>buff_reader.move(environment_va)\<close>
  to the end of the loop.
\<close>

definition read_environment ::
  "BufferedReader \<Rightarrow> nat \<Rightarrow> error + (env_var list \<times> BufferedReader)" where
  "read_environment rd environment_va =
     and_then (move rd environment_va) (\<lambda>rd1.
     and_then (read_rest rd1) (\<lambda>(env_buffer, rd2).
       environment_loop rd2 environment_va env_buffer []))"

text \<open>
  \<^verbatim>\<open>__parse_peb\<close>. An exception leaves the method at once, so the attributes assigned
  before it are of no use to any caller; the model returns the exception alone.
\<close>

definition parse_peb :: "'s externals \<Rightarrow> 's MinidumpFile \<Rightarrow> error + 's MinidumpFile" where
  "parse_peb ext mf =
     (let x64v = x64_flag ext mf; offset_index = x64v in
      and_then (get_buffered_reader mf) (\<lambda>rd.
      and_then (first_thread mf) (\<lambda>thread0.
      and_then (OFFSETS ext offset_index) (\<lambda>offs.
      and_then (read_pointer ext rd (Teb thread0 + off_peb offs) x64v) (\<lambda>(peb, rd).
      and_then (move rd (peb + off_being_debugged offs)) (\<lambda>rd.
      and_then (read rd 1) (\<lambda>(dbg, rd).
      and_then (read_pointer ext rd (peb + off_image_base_address offs) x64v) (\<lambda>(base, rd).
      and_then (read_pointer ext rd (peb + off_process_parameters offs) x64v)
        (\<lambda>(process_parameters, rd).
      and_then (read_unicode_string_property ext rd
                  (process_parameters + off_image_path offs) x64v) (\<lambda>(path, rd).
      and_then (read_unicode_string_property ext rd
                  (process_parameters + off_command_line offs) x64v) (\<lambda>(cmd, rd).
      and_then (read_unicode_string_property ext rd
                  (process_parameters + off_window_title offs) x64v) (\<lambda>(title, rd).
      and_then (read_unicode_string_property ext rd
                  (process_parameters + off_dll_path offs) x64v) (\<lambda>(dll, rd).
      and_then (read_unicode_string_property ext rd
                  (process_parameters + off_current_directory offs) x64v) (\<lambda>(cwd, rd).
      and_then (read_pointer ext rd (process_parameters + off_standard_input offs) x64v)
        (\<lambda>(stdin, rd).
      and_then (read_pointer ext rd (process_parameters + off_standard_output offs) x64v)
        (\<lambda>(stdout, rd).
      and_then (read_pointer ext rd (process_parameters + off_standard_error offs) x64v)
        (\<lambda>(stderr, rd).
      and_then (read_pointer ext rd (process_parameters + off_environment_variables offs) x64v)
        (\<lambda>(environment_va, rd).
      and_then (read_environment rd environment_va) (\<lambda>(vars, rd).
        Inr (mf\<lparr>x64 := Some x64v,
                peb_address := Some peb,
                being_debugged := Some (from_bytes_little dbg),
                image_base_address := Some base,
                image_path := Some path,
                command_line := Some cmd,
                window_title := Some title,
                dll_path := Some dll,
                current_directory := Some cwd,
                standard_input := Some stdin,
                standard_output := Some stdout,
                standard_error := Some stderr,
                environment_variables := Some vars\<rparr>))))))))))))))))))))"

section \<open>The stream directory dispatcher\<close>

text \<open>
  The body of the \<^verbatim>\<open>for\<close> loop of \<^verbatim>\<open>__parse_header\<close>, over the indices it has left.
  \<^verbatim>\<open>MINIDUMP_DIRECTORY.parse\<close> returns \<open>None\<close> for an entry that is not a known
  stream type; the loop then reads the raw tag, which is only logged.
\<close>

fun header_loop ::
  "'s externals \<Rightarrow> MinidumpHeader \<Rightarrow> nat list \<Rightarrow> 's MinidumpFile \<Rightarrow> error + 's MinidumpFile" where
  "header_loop ext hdr [] mf = Inr mf"
| "header_loop ext hdr (i # rest) mf =
     and_then (MINIDUMP_DIRECTORY_parse ext
                 (seek (file_handle mf) (StreamDirectoryRva hdr + i * 12))) (\<lambda>(minidump_dir, fh).
       case minidump_dir of
         Some d \<Rightarrow>
           header_loop ext hdr rest (mf\<lparr>file_handle := fh, directories := directories mf @ [d]\<rparr>)
       | None \<Rightarrow>
           and_then (get_stream_type_value ext (seek fh (StreamDirectoryRva hdr + i * 12)))
             (\<lambda>(user_stream_type_value, fh').
                header_loop ext hdr rest (mf\<lparr>file_handle := fh'\<rparr>)))"

definition parse_header :: "'s externals \<Rightarrow> 's MinidumpFile \<Rightarrow> error + 's MinidumpFile" where
  "parse_header ext mf =
     and_then (MinidumpHeader_parse ext (file_handle mf)) (\<lambda>(hdr, fh).
       header_loop ext hdr [0..<NumberOfStreams hdr] (mf\<lparr>file_handle := fh, header := Some hdr\<rparr>))"

text \<open>
  One round of the \<^verbatim>\<open>for\<close> loop of \<^verbatim>\<open>__parse_directories\<close>: the branch of the stream
  type either stores what its decoder returns or only logs.
\<close>

definition store ::
  "'s MinidumpFile \<Rightarrow> error + ('a \<times> BytesIO) \<Rightarrow> ('a \<Rightarrow> 's MinidumpFile \<Rightarrow> 's MinidumpFile)
     \<Rightarrow> error + 's MinidumpFile" where
  "store mf decoded assign =
     and_then decoded (\<lambda>(v, fh). Inr (assign v (mf\<lparr>file_handle := fh\<rparr>)))"

fun directory_step ::
  "'s externals \<Rightarrow> MINIDUMP_DIRECTORY \<Rightarrow> MINIDUMP_STREAM_TYPE \<Rightarrow> 's MinidumpFile
     \<Rightarrow> error + 's MinidumpFile" where
  "directory_step ext dir UnusedStream mf = Inr mf"
| "directory_step ext dir ReservedStream0 mf = Inr mf"
| "directory_step ext dir ReservedStream1 mf = Inr mf"
| "directory_step ext dir ThreadListStream mf =
     store mf (MinidumpThreadList_parse ext dir (file_handle mf)) (\<lambda>v m. m\<lparr>threads := Some v\<rparr>)"
| "directory_step ext dir ModuleListStream mf =
     store mf (MinidumpModuleList_parse ext dir (file_handle mf)) (\<lambda>v m. m\<lparr>modules := Some v\<rparr>)"
| "directory_step ext dir MemoryListStream mf =
     store mf (MinidumpMemoryList_parse ext dir (file_handle mf))
       (\<lambda>v m. m\<lparr>memory_segments := Some v\<rparr>)"
| "directory_step ext dir SystemInfoStream mf =
     store mf (MinidumpSystemInfo_parse ext dir (file_handle mf)) (\<lambda>v m. m\<lparr>sysinfo := Some v\<rparr>)"
| "directory_step ext dir ThreadExListStream mf =
     store mf (MinidumpThreadExList_parse ext dir (file_handle mf))
       (\<lambda>v m. m\<lparr>threads_ex := Some v\<rparr>)"
| "directory_step ext dir Memory64ListStream mf =
     store mf (MinidumpMemory64List_parse ext dir (file_handle mf))
       (\<lambda>v m. m\<lparr>memory_segments_64 := Some v\<rparr>)"
| "directory_step ext dir CommentStreamA mf =
     store mf (CommentStreamA_parse ext dir (file_handle mf)) (\<lambda>v m. m\<lparr>comment_a := Some v\<rparr>)"
| "directory_step ext dir CommentStreamW mf =
     store mf (CommentStreamW_parse ext dir (file_handle mf)) (\<lambda>v m. m\<lparr>comment_w := Some v\<rparr>)"
| "directory_step ext dir ExceptionStream mf =
     store mf (ExceptionList_parse ext dir (file_handle mf)) (\<lambda>v m. m\<lparr>exception := Some v\<rparr>)"
| "directory_step ext dir HandleDataStream mf =
     store mf (MinidumpHandleDataStream_parse ext dir (file_handle mf))
       (\<lambda>v m. m\<lparr>handles := Some v\<rparr>)"
| "directory_step ext dir FunctionTableStream mf = Inr mf"
| "directory_step ext dir UnloadedModuleListStream mf =
     store mf (MinidumpUnloadedModuleList_parse ext dir (file_handle mf))
       (\<lambda>v m. m\<lparr>unloaded_modules := Some v\<rparr>)"
| "directory_step ext dir MiscInfoStream mf =
     store mf (MinidumpMiscInfo_parse ext dir (file_handle mf)) (\<lambda>v m. m\<lparr>misc_info := Some v\<rparr>)"
| "directory_step ext dir MemoryInfoListStream mf =
     store mf (MinidumpMemoryInfoList_parse ext dir (file_handle mf))
       (\<lambda>v m. m\<lparr>memory_info := Some v\<rparr>)"
| "directory_step ext dir ThreadInfoListStream mf =
     store mf (MinidumpThreadInfoList_parse ext dir (file_handle mf))
       (\<lambda>v m. m\<lparr>thread_info := Some v\<rparr>)"
| "directory_step ext dir SystemMemoryInfoStream mf = Inr mf"
| "directory_step ext dir JavaScriptDataStream mf = Inr mf"
| "directory_step ext dir ProcessVmCountersStream mf = Inr mf"
| "directory_step ext dir TokenStream mf = Inr mf"
| "directory_step ext dir (OtherStream v) mf = Inr mf"

fun directories_loop ::
  "'s externals \<Rightarrow> MINIDUMP_DIRECTORY list \<Rightarrow> 's MinidumpFile \<Rightarrow> error + 's MinidumpFile" where
  "directories_loop ext [] mf = Inr mf"
| "directories_loop ext (dir # rest) mf =
     and_then (directory_step ext dir (StreamType dir) mf) (directories_loop ext rest)"

section \<open>The context dispatcher\<close>

text \<open>
  The body of the \<^verbatim>\<open>for\<close> loop of \<^verbatim>\<open>__parse_thread_context\<close> for one thread: seek
  to the context record, then decode by architecture. The result is the exception of the
  decoder or the thread object after the assignment, and the byte source.
\<close>

definition thread_context_step ::
  "'s externals \<Rightarrow> PROCESSOR_ARCHITECTURE \<Rightarrow> 's MINIDUMP_THREAD \<Rightarrow> BytesIO
     \<Rightarrow> (error + 's MINIDUMP_THREAD) \<times> BytesIO" where
  "thread_context_step ext arch thread fh =
     (let rva = Rva (ThreadContext thread); fh1 = seek fh rva in
      if arch = AMD64 then
        (case CONTEXT_parse ext fh1 of
           (Inl e, fh2) \<Rightarrow> (Inl e, fh2)
         | (Inr c, fh2) \<Rightarrow> (Inr (thread\<lparr>ContextObject := Some (CONTEXT c)\<rparr>), fh2))
      else if arch = INTEL then
        (case WOW64_CONTEXT_parse ext fh1 of
           (Inl e, fh2) \<Rightarrow> (Inl e, fh2)
         | (Inr c, fh2) \<Rightarrow> (Inr (thread\<lparr>ContextObject := Some (WOW64_CONTEXT c)\<rparr>), fh2))
      else (Inr thread, fh1))"

text \<open>
  The \<^verbatim>\<open>for\<close> loop over the threads it has left. The thread objects are updated in
  place, so when a decoder raises, the threads already handled keep their context and the
  others are as they were; the result is the exception, if any, the thread objects and the
  byte source.
\<close>

fun thread_context_loop ::
  "'s externals \<Rightarrow> PROCESSOR_ARCHITECTURE \<Rightarrow> 's MINIDUMP_THREAD list \<Rightarrow> BytesIO
     \<Rightarrow> error option \<times> 's MINIDUMP_THREAD list \<times> BytesIO" where
  "thread_context_loop ext arch [] fh = (None, [], fh)"
| "thread_context_loop ext arch (thread # rest) fh =
     (case thread_context_step ext arch thread fh of
        (Inl e, fh2) \<Rightarrow> (Some e, thread # rest, fh2)
      | (Inr thread', fh2) \<Rightarrow>
          (case thread_context_loop ext arch rest fh2 of
             (r, rest', fh3) \<Rightarrow> (r, thread' # rest', fh3)))"

text \<open>
  \<^verbatim>\<open>__parse_thread_context\<close>: nothing is done unless both the system info and the thread
  list are there and true.
\<close>

definition parse_thread_context ::
  "'s externals \<Rightarrow> 's MinidumpFile \<Rightarrow> error option \<times> 's MinidumpFile" where
  "parse_thread_context ext mf =
     (case (sysinfo mf, threads mf) of
        (Some si, Some thread_list) \<Rightarrow>
          if \<not> truth_SystemInfo ext si \<or> \<not> truth_ThreadList ext thread_list then (None, mf)
          else
            (case thread_context_loop ext (ProcessorArchitecture si) (tl_threads thread_list)
                    (file_handle mf) of
               (r, ts, fh) \<Rightarrow> (r, mf\<lparr>file_handle := fh, threads := Some (thread_list\<lparr>tl_threads := ts\<rparr>)\<rparr>))
      | _ \<Rightarrow> (None, mf))"

text \<open>
  \<^verbatim>\<open>__parse_directories\<close>: the dispatch loop, then the thread contexts inside
  \<^verbatim>\<open>try\<close>/\<^verbatim>\<open>except Exception\<close>, where an exception is logged and dropped.
\<close>

definition parse_directories :: "'s externals \<Rightarrow> 's MinidumpFile \<Rightarrow> error + 's MinidumpFile" where
  "parse_directories ext mf =
     and_then (directories_loop ext (directories mf) mf) (\<lambda>mf1.
       Inr (snd (parse_thread_context ext mf1)))"

section \<open>Entry points\<close>

text \<open>\<^verbatim>\<open>_parse\<close>: header, directories, PEB, with no handler around any of them.\<close>

definition internal_parse :: "'s externals \<Rightarrow> 's MinidumpFile \<Rightarrow> error + 's MinidumpFile" where
  "internal_parse ext mf =
     and_then (parse_header ext mf) (\<lambda>mf1.
     and_then (parse_directories ext mf1) (\<lambda>mf2.
     parse_peb ext mf2))"

text \<open>
  \<^verbatim>\<open>MinidumpFile()\<close> followed by the assignment of \<^verbatim>\<open>file_handle\<close> that every entry
  point makes before it parses.
\<close>

definition new_MinidumpFile :: "BytesIO \<Rightarrow> 's MinidumpFile" where
  "new_MinidumpFile buffer =
     \<lparr>filename = None, file_handle = buffer, header = None, directories = [],
      threads_ex = None, threads = None, modules = None, memory_segments = None,
      memory_segments_64 = None, sysinfo = None, comment_a = None, comment_w = None,
      exception = None, handles = None, unloaded_modules = None, misc_info = None,
      memory_info = None, thread_info = None, x64 = None, peb_address = None,
      being_debugged = None, image_base_address = None, image_path = None,
      command_line = None, window_title = None, dll_path = None, current_directory = None,
      standard_input = None, standard_output = None, standard_error = None,
      environment_variables = None\<rparr>"

definition parse_buff :: "'s externals \<Rightarrow> BytesIO \<Rightarrow> error + 's MinidumpFile" where
  "parse_buff ext buffer = internal_parse ext (new_MinidumpFile buffer)"

definition parse_bytes :: "'s externals \<Rightarrow> byte list \<Rightarrow> error + 's MinidumpFile" where
  "parse_bytes ext data = parse_buff ext \<lparr>content = data, position = 0\<rparr>"

section \<open>The summary renderer\<close>

text \<open>\<^verbatim>\<open>str(x)\<close> of an attribute that may be \<^verbatim>\<open>None\<close>.\<close>

definition str_of :: "('a \<Rightarrow> pystr) \<Rightarrow> 'a option \<Rightarrow> pystr" where
  "str_of f x = (case x of None \<Rightarrow> py_str ''None'' | Some v \<Rightarrow> f v)"

text \<open>A loop \<^verbatim>\<open>for x in xs: t += str(x) + '\n'\<close>.\<close>

definition append_lines :: "('a \<Rightarrow> pystr) \<Rightarrow> 'a list \<Rightarrow> pystr \<Rightarrow> pystr" where
  "append_lines f xs t = foldl (\<lambda>t x. t @ f x @ [10]) t xs"

text \<open>
  \<^verbatim>\<open>__str__\<close>. The two region lists are behind \<^verbatim>\<open>is not None\<close>; the module list is
  not, and \<^verbatim>\<open>self.modules.modules\<close> on \<^verbatim>\<open>None\<close> raises.
\<close>

definition str_MinidumpFile :: "'s externals \<Rightarrow> 's MinidumpFile \<Rightarrow> error + pystr" where
  "str_MinidumpFile ext mf =
     (let t = py_str ''== Minidump File =='' @ [10];
          t = t @ str_of (str_header ext) (header mf);
          t = t @ str_of (str_sysinfo ext) (sysinfo mf);
          t = append_lines (str_directory ext) (directories mf) t
      in case modules mf of
           None \<Rightarrow> Inl AttributeError
         | Some ml \<Rightarrow>
             (let t = append_lines (str_module ext) (ml_modules ml) t;
                  t = (case memory_segments mf of
                         None \<Rightarrow> t
                       | Some segs \<Rightarrow> append_lines (str_segment ext) (mem_segments segs) t);
                  t = (case memory_segments_64 mf of
                         None \<Rightarrow> t
                       | Some segs \<Rightarrow> append_lines (str_segment64 ext) (mem64_segments segs) t)
              in Inr t))"

section \<open>The dispatch table read off the dispatcher\<close>

text \<open>
  To speak of ``the model field of a stream type'' and ``the decoder of a stream type''
  for all stream types at once, the objects the decoders return are put in one type.
\<close>

datatype 's stream_value =
    ThreadListValue "'s MinidumpThreadList"
  | ModuleListValue "'s MinidumpModuleList"
  | MemoryListValue MinidumpMemoryList
  | SystemInfoValue MinidumpSystemInfo
  | Memory64ListValue MinidumpMemory64List
  | OpaqueValue 's

text \<open>
  The attribute that the branch of a stream type assigns in \<^verbatim>\<open>__parse_directories\<close>;
  the stream types whose branch only logs have none.
\<close>

fun stream_field :: "MINIDUMP_STREAM_TYPE \<Rightarrow> 's MinidumpFile \<Rightarrow> 's stream_value option" where
  "stream_field ThreadListStream mf = map_option ThreadListValue (threads mf)"
| "stream_field ModuleListStream mf = map_option ModuleListValue (modules mf)"
| "stream_field MemoryListStream mf = map_option MemoryListValue (memory_segments mf)"
| "stream_field SystemInfoStream mf = map_option SystemInfoValue (sysinfo mf)"
| "stream_field ThreadExListStream mf = map_option OpaqueValue (threads_ex mf)"
| "stream_field Memory64ListStream mf = map_option Memory64ListValue (memory_segments_64 mf)"
| "stream_field CommentStreamA mf = map_option OpaqueValue (comment_a mf)"
| "stream_field CommentStreamW mf = map_option OpaqueValue (comment_w mf)"
| "stream_field ExceptionStream mf = map_option OpaqueValue (exception mf)"
| "stream_field HandleDataStream mf = map_option OpaqueValue (handles mf)"
| "stream_field UnloadedModuleListStream mf = map_option OpaqueValue (unloaded_modules mf)"
| "stream_field MiscInfoStream mf = map_option OpaqueValue (misc_info mf)"
| "stream_field MemoryInfoListStream mf = map_option OpaqueValue (memory_info mf)"
| "stream_field ThreadInfoListStream mf = map_option OpaqueValue (thread_info mf)"
| "stream_field other mf = None"

text \<open>The decoder that the branch of a stream type calls, with its result in the common type.\<close>

definition decoded_as ::
  "('a \<Rightarrow> 's stream_value) \<Rightarrow> error + ('a \<times> BytesIO) \<Rightarrow> error + ('s stream_value \<times> BytesIO)" where
  "decoded_as wrap res = and_then res (\<lambda>(v, fh). Inr (wrap v, fh))"

fun stream_decoder ::
  "'s externals \<Rightarrow> MINIDUMP_STREAM_TYPE \<Rightarrow>
     (MINIDUMP_DIRECTORY \<Rightarrow> BytesIO \<Rightarrow> error + ('s stream_value \<times> BytesIO)) option" where
  "stream_decoder ext ThreadListStream =
     Some (\<lambda>d fh. decoded_as ThreadListValue (MinidumpThreadList_parse ext d fh))"
| "stream_decoder ext ModuleListStream =
     Some (\<lambda>d fh. decoded_as ModuleListValue (MinidumpModuleList_parse ext d fh))"
| "stream_decoder ext MemoryListStream =
     Some (\<lambda>d fh. decoded_as MemoryListValue (MinidumpMemoryList_parse ext d fh))"
| "stream_decoder ext SystemInfoStream =
     Some (\<lambda>d fh. decoded_as SystemInfoValue (MinidumpSystemInfo_parse ext d fh))"
| "stream_decoder ext ThreadExListStream =
     Some (\<lambda>d fh. decoded_as OpaqueValue (MinidumpThreadExList_parse ext d fh))"
| "stream_decoder ext Memory64ListStream =
     Some (\<lambda>d fh. decoded_as Memory64ListValue (MinidumpMemory64List_parse ext d fh))"
| "stream_decoder ext CommentStreamA =
     Some (\<lambda>d fh. decoded_as OpaqueValue (CommentStreamA_parse ext d fh))"
| "stream_decoder ext CommentStreamW =
     Some (\<lambda>d fh. decoded_as OpaqueValue (CommentStreamW_parse ext d fh))"
| "stream_decoder ext ExceptionStream =
     Some (\<lambda>d fh. decoded_as OpaqueValue (ExceptionList_parse ext d fh))"
| "stream_decoder ext HandleDataStream =
     Some (\<lambda>d fh. decoded_as OpaqueValue (MinidumpHandleDataStream_parse ext d fh))"
| "stream_decoder ext UnloadedModuleListStream =
     Some (\<lambda>d fh. decoded_as OpaqueValue (MinidumpUnloadedModuleList_parse ext d fh))"
| "stream_decoder ext MiscInfoStream =
     Some (\<lambda>d fh. decoded_as OpaqueValue (MinidumpMiscInfo_parse ext d fh))"
| "stream_decoder ext MemoryInfoListStream =
     Some (\<lambda>d fh. decoded_as OpaqueValue (MinidumpMemoryInfoList_parse ext d fh))"
| "stream_decoder ext ThreadInfoListStream =
     Some (\<lambda>d fh. decoded_as OpaqueValue (MinidumpThreadInfoList_parse ext d fh))"
| "stream_decoder ext other = None"

text \<open>
  The thread contexts are filled in after the dispatch loop, in the thread objects of the
  decoded thread list; a decoded value is compared with the field up to these contexts.
\<close>

definition forget_contexts :: "'s stream_value \<Rightarrow> 's stream_value" where
  "forget_contexts v =
     (case v of
        ThreadListValue tlist \<Rightarrow>
          ThreadListValue (tlist\<lparr>tl_threads := map (\<lambda>t. t\<lparr>ContextObject := None\<rparr>) (tl_threads tlist)\<rparr>)
      | _ \<Rightarrow> v)"

section \<open>A worked instance of the collaborators\<close>

text \<open>
  Concrete collaborators for the worked examples below: the field offsets of the Windows
  structures, a register-context decoder that reads the one byte under the cursor and
  raises at the end of the file, and stream decoders that return small fixed objects
  built from the location of the directory entry. The directory table has a thread list
  whose only thread has its TEB at \<open>0x7FFDE000\<close> and a 32-bit region list whose only
  region is the sixteen bytes at \<open>0x10000\<close>.
\<close>

definition windows_offsets :: "bool \<Rightarrow> offsets" where
  "windows_offsets is64 =
     (if is64 then
        \<lparr>off_peb = 0x60, off_being_debugged = 0x2, off_image_base_address = 0x10,
         off_process_parameters = 0x20, off_image_path = 0x60, off_command_line = 0x70,
         off_window_title = 0xB0, off_dll_path = 0x50, off_current_directory = 0x38,
         off_standard_input = 0x20, off_standard_output = 0x28, off_standard_error = 0x30,
         off_environment_variables = 0x80, off_buffer = 0x8\<rparr>
      else
        \<lparr>off_peb = 0x30, off_being_debugged = 0x2, off_image_base_address = 0x8,
         off_process_parameters = 0x10, off_image_path = 0x38, off_command_line = 0x40,
         off_window_title = 0x70, off_dll_path = 0x30, off_current_directory = 0x24,
         off_standard_input = 0x18, off_standard_output = 0x1C, off_standard_error = 0x20,
         off_environment_variables = 0x48, off_buffer = 0x4\<rparr>)"

definition byte_at :: "BytesIO \<Rightarrow> (error + nat) \<times> BytesIO" where
  "byte_at fh =
     (if position fh < length (content fh)
      then (Inr (unat (content fh ! position fh)), fh\<lparr>position := Suc (position fh)\<rparr>)
      else (Inl TruncatedReadError, fh))"

definition opaque_stream :: "MINIDUMP_DIRECTORY \<Rightarrow> BytesIO \<Rightarrow> error + (nat \<times> BytesIO)" where
  "opaque_stream d fh = Inr (Rva (Location d), seek fh (Rva (Location d)))"

definition demo_externals :: "nat externals" where
  "demo_externals =
     \<lparr>MinidumpHeader_parse =
        (\<lambda>fh. Inr (\<lparr>NumberOfStreams = 2, StreamDirectoryRva = 32\<rparr>, seek fh 32)),
      MINIDUMP_DIRECTORY_parse =
        (\<lambda>fh. Inr (if position fh = 32
                    then Some \<lparr>StreamType = ThreadListStream,
                              Location = \<lparr>DataSize = 52, Rva = 0x7FFDE000\<rparr>\<rparr>
                    else if position fh = 44
                    then Some \<lparr>StreamType = MemoryListStream,
                              Location = \<lparr>DataSize = 20, Rva = 0x10000\<rparr>\<rparr>
                    else None, fh\<lparr>position := position fh + 12\<rparr>)),
      get_stream_type_value = (\<lambda>fh. Inr (0, fh\<lparr>position := position fh + 4\<rparr>)),
      MinidumpThreadList_parse =
        (\<lambda>d fh. Inr (\<lparr>tl_threads = [\<lparr>Teb = Rva (Location d),
                                       ThreadContext = \<lparr>DataSize = 1, Rva = 0\<rparr>,
                                       ContextObject = None\<rparr>]\<rparr>, seek fh (Rva (Location d)))),
      MinidumpModuleList_parse =
        (\<lambda>d fh. Inr (\<lparr>ml_modules = [Rva (Location d)]\<rparr>, seek fh (Rva (Location d)))),
      MinidumpMemoryList_parse =
        (\<lambda>d fh. Inr (\<lparr>mem_segments = [\<lparr>start_virtual_address = Rva (Location d),
                                         Memory = \<lparr>DataSize = 16, Rva = 0\<rparr>\<rparr>]\<rparr>,
                      seek fh (Rva (Location d)))),
      MinidumpSystemInfo_parse =
        (\<lambda>d fh. Inr (\<lparr>ProcessorArchitecture = AMD64\<rparr>, seek fh (Rva (Location d)))),
      MinidumpThreadExList_parse = opaque_stream,
      MinidumpMemory64List_parse =
        (\<lambda>d fh. Inr (\<lparr>BaseRva = Rva (Location d), mem64_segments = []\<rparr>,
                      seek fh (Rva (Location d)))),
      CommentStreamA_parse = opaque_stream,
      CommentStreamW_parse = opaque_stream,
      ExceptionList_parse = opaque_stream,
      MinidumpHandleDataStream_parse = opaque_stream,
      MinidumpUnloadedModuleList_parse = opaque_stream,
      MinidumpMiscInfo_parse = opaque_stream,
      MinidumpMemoryInfoList_parse = opaque_stream,
      MinidumpThreadInfoList_parse = opaque_stream,
      CONTEXT_parse = byte_at,
      WOW64_CONTEXT_parse = byte_at,
      OFFSETS = (\<lambda>v. case v of PyBool b \<Rightarrow> Inr (windows_offsets b) | _ \<Rightarrow> Inl TypeError),
      POINTER_SIZE = (\<lambda>v. case v of PyBool b \<Rightarrow> Inr (if b then 8 else 4) | _ \<Rightarrow> Inl TypeError),
      truth_MemoryList = (\<lambda>ml. True),
      truth_ThreadList = (\<lambda>tl. True),
      truth_SystemInfo = (\<lambda>si. True),
      str_header = (\<lambda>h. py_str ''header''),
      str_sysinfo = (\<lambda>h. py_str ''sysinfo''),
      str_directory = (\<lambda>h. py_str ''directory''),
      str_module = (\<lambda>h. py_str ''module''),
      str_segment = (\<lambda>h. py_str ''segment''),
      str_segment64 = (\<lambda>h. py_str ''segment64'')\<rparr>"

definition demo_thread :: "nat \<Rightarrow> nat MINIDUMP_THREAD" where
  "demo_thread rva =
     \<lparr>Teb = 0x7FFDE000, ThreadContext = \<lparr>DataSize = 1, Rva = rva\<rparr>, ContextObject = None\<rparr>"

definition demo_file ::
  "byte list \<Rightarrow> PROCESSOR_ARCHITECTURE \<Rightarrow> nat MINIDUMP_THREAD list \<Rightarrow> nat MinidumpFile" where
  "demo_file bs arch ts =
     (new_MinidumpFile \<lparr>content = bs, position = 0\<rparr>)
       \<lparr>threads := Some \<lparr>tl_threads = ts\<rparr>, sysinfo := Some \<lparr>ProcessorArchitecture = arch\<rparr>\<rparr>"

text \<open>
  A reader over one region that maps the whole of a file at address \<open>0x10000\<close>.
\<close>

definition demo_reader :: "byte list \<Rightarrow> BufferedReader" where
  "demo_reader bs =
     \<lparr>regions = [\<lparr>start_address = 0x10000, end_address = 0x10000 + length bs, file_offset = 0\<rparr>],
      source = bs, current_segment = None, current_position = 0, calls = []\<rparr>"

definition demo_directory :: "MINIDUMP_STREAM_TYPE \<Rightarrow> nat \<Rightarrow> MINIDUMP_DIRECTORY" where
  "demo_directory ty rva = \<lparr>StreamType = ty, Location = \<lparr>DataSize = 48, Rva = rva\<rparr>\<rparr>"

section \<open>Properties\<close>

subsection \<open>Bitness inference\<close>

text \<open>
  C1. The bitness flag computed at the start of the PEB walk is true exactly when a 64-bit
  region list is present, or a 32-bit region list is present and one of its regions starts
  above \<open>0xFFFFFFFF\<close>. So a 32-bit list alone whose regions all start at or below
  \<open>0xFFFFFFFF\<close> gives a false flag, one start above it gives a true flag, and a present
  64-bit list gives a true flag whatever the 32-bit list holds. The flag is the value of a
  Python \<^verbatim>\<open>or\<close>/\<^verbatim>\<open>and\<close> expression, so ``true'' is its truth value; the one
  assumption on the absent class of the region list is that a list object that Python
  takes for false has no regions.
\<close>

theorem x64_flag_iff:
  assumes "\<And>ml. \<not> truth_MemoryList ext ml \<Longrightarrow> mem_segments ml = []"
  shows "truth ext (x64_flag ext mf) =
     (memory_segments_64 mf \<noteq> None \<or>
      (\<exists>ml. memory_segments mf = Some ml \<and>
            (\<exists>mem \<in> set (mem_segments ml). start_virtual_address mem > 0xFFFFFFFF)))"
  using assms
  by (auto simp: x64_flag_def iter_MemoryList_def list_ex_iff split: option.splits)

theorem x64_flag_iff_witness:
  "truth demo_externals
     (x64_flag demo_externals
        ((new_MinidumpFile \<lparr>content = [], position = 0\<rparr>)
           \<lparr>memory_segments :=
              Some \<lparr>mem_segments = [\<lparr>start_virtual_address = 0x100000000,
                                       Memory = \<lparr>DataSize = 16, Rva = 0\<rparr>\<rparr>]\<rparr>\<rparr>))"
  using x64_flag_iff [of demo_externals
        "(new_MinidumpFile \<lparr>content = [], position = 0\<rparr>)
           \<lparr>memory_segments :=
              Some \<lparr>mem_segments = [\<lparr>start_virtual_address = 0x100000000,
                                       Memory = \<lparr>DataSize = 16, Rva = 0\<rparr>\<rparr>]\<rparr>\<rparr>"]
  by (simp add: demo_externals_def new_MinidumpFile_def)

subsection \<open>The summary renderer\<close>

text \<open>
  C10. The renderer reads \<^verbatim>\<open>self.modules.modules\<close> without a check: on a file object
  that has no module list it raises instead of returning a summary. With a module list it
  returns a summary whatever else is missing, in particular when one or both region lists
  are \<^verbatim>\<open>None\<close>, since those two loops are behind \<^verbatim>\<open>is not None\<close>.
\<close>

theorem str_needs_modules:
  "(modules mf = None \<longrightarrow> str_MinidumpFile ext mf = Inl AttributeError) \<and>
   (\<forall>ml. modules mf = Some ml \<longrightarrow> (\<exists>t. str_MinidumpFile ext mf = Inr t))"
  by (auto simp: str_MinidumpFile_def Let_def split: option.splits)

theorem str_needs_modules_witness:
  "str_MinidumpFile demo_externals
     (new_MinidumpFile \<lparr>content = [], position = 0\<rparr> :: nat MinidumpFile) = Inl AttributeError \<and>
   (\<exists>t. str_MinidumpFile demo_externals
          ((new_MinidumpFile \<lparr>content = [], position = 0\<rparr>)
             \<lparr>modules := Some \<lparr>ml_modules = [7]\<rparr>\<rparr>) = Inr t)"
  using str_needs_modules [of "new_MinidumpFile \<lparr>content = [], position = 0\<rparr>" demo_externals]
        str_needs_modules [of "(new_MinidumpFile \<lparr>content = [], position = 0\<rparr>)
             \<lparr>modules := Some \<lparr>ml_modules = [7]\<rparr>\<rparr>" demo_externals]
  by (simp add: new_MinidumpFile_def)

subsection \<open>The context dispatcher\<close>

lemma thread_context_loop_append:
  "thread_context_loop ext arch pre fh = (None, pre', fh1) \<Longrightarrow>
   thread_context_loop ext arch (pre @ rest) fh =
     (case thread_context_loop ext arch rest fh1 of (r, rest', fh2) \<Rightarrow> (r, pre' @ rest', fh2))"
proof (induction pre arbitrary: fh pre')
  case Nil
  then show ?case by simp
next
  case (Cons t pre)
  obtain res fh2 where step: "thread_context_step ext arch t fh = (res, fh2)"
    by (cases "thread_context_step ext arch t fh")
  show ?case
  proof (cases res)
    case (Inl e)
    with step Cons.prems show ?thesis by simp
  next
    case (Inr t')
    obtain r0 p0 f0 where rec: "thread_context_loop ext arch pre fh2 = (r0, p0, f0)"
      by (cases "thread_context_loop ext arch pre fh2")
    with step Inr Cons.prems have "r0 = None" "pre' = t' # p0" "f0 = fh1"
      by simp_all
    with rec have "thread_context_loop ext arch pre fh2 = (None, p0, fh1)" by simp
    from Cons.IH [OF this] step Inr \<open>pre' = t' # p0\<close> show ?thesis
      by (simp split: prod.splits)
  qed
qed



lemma parse_thread_context_loop:
  "sysinfo mf = Some si \<Longrightarrow> threads mf = Some tlist \<Longrightarrow>
   truth_SystemInfo ext si \<Longrightarrow> truth_ThreadList ext tlist \<Longrightarrow>
   thread_context_loop ext (ProcessorArchitecture si) (tl_threads tlist) (file_handle mf) = (r, ts, fh') \<Longrightarrow>
   parse_thread_context ext mf =
     (r, mf\<lparr>file_handle := fh', threads := Some (tlist\<lparr>tl_threads := ts\<rparr>)\<rparr>)"
  by (simp add: parse_thread_context_def)




text \<open>
  C3. The \<^verbatim>\<open>try\<close> is around the whole of \<^verbatim>\<open>__parse_thread_context\<close>, not around
  one thread: when the decoder of a thread raises, the loop ends there. The threads before
  it keep the contexts they were given, the failing thread and every thread after it are
  left as they were, and \<^verbatim>\<open>__parse_directories\<close> drops the exception and returns the
  model. The example after it is the two-thread file in which the first context record lies
  past the end of the file: the second thread is left without a context although its own
  record decodes.
\<close>

theorem context_failure_ends_loop:
  assumes "sysinfo mf = Some si" and "threads mf = Some tlist"
    and "truth_SystemInfo ext si" and "truth_ThreadList ext tlist"
    and "tl_threads tlist = pre @ thread # post"
    and "thread_context_loop ext (ProcessorArchitecture si) pre (file_handle mf) = (None, pre', fh1)"
    and "ProcessorArchitecture si = AMD64 \<and>
           CONTEXT_parse ext (seek fh1 (Rva (ThreadContext thread))) = (Inl e, fh2) \<or>
         ProcessorArchitecture si = INTEL \<and>
           WOW64_CONTEXT_parse ext (seek fh1 (Rva (ThreadContext thread))) = (Inl e, fh2)"
  shows "parse_thread_context ext mf =
           (Some e, mf\<lparr>file_handle := fh2,
                        threads := Some (tlist\<lparr>tl_threads := pre' @ thread # post\<rparr>)\<rparr>) \<and>
         (\<forall>mf0. directories_loop ext (directories mf0) mf0 = Inr mf \<longrightarrow>
            parse_directories ext mf0 =
              Inr (mf\<lparr>file_handle := fh2,
                      threads := Some (tlist\<lparr>tl_threads := pre' @ thread # post\<rparr>)\<rparr>))"
proof -
  have "thread_context_step ext (ProcessorArchitecture si) thread fh1 = (Inl e, fh2)"
    using assms(7) by (auto simp: thread_context_step_def Let_def)
  then have "thread_context_loop ext (ProcessorArchitecture si) (tl_threads tlist) (file_handle mf) =
      (Some e, pre' @ thread # post, fh2)"
    using thread_context_loop_append [OF assms(6), of "thread # post"] assms(5) by simp
  from parse_thread_context_loop [OF assms(1-4) this]
  show ?thesis by (simp add: parse_directories_def and_then_def)
qed

theorem context_failure_ends_loop_witness:
  "parse_thread_context demo_externals (demo_file [0x2A] AMD64 [demo_thread 0, demo_thread 5, demo_thread 0]) =
     (Some TruncatedReadError,
      (demo_file [0x2A] AMD64 [demo_thread 0, demo_thread 5, demo_thread 0])
        \<lparr>file_handle := \<lparr>content = [0x2A], position = 5\<rparr>,
         threads := Some \<lparr>tl_threads = [(demo_thread 0)\<lparr>ContextObject := Some (CONTEXT 0x2A)\<rparr>,
                                         demo_thread 5, demo_thread 0]\<rparr>\<rparr>)"
proof -
  let ?mf = "demo_file [0x2A] AMD64 [demo_thread 0, demo_thread 5, demo_thread 0]"
  let ?si = "\<lparr>ProcessorArchitecture = AMD64\<rparr>"
  let ?tl = "\<lparr>tl_threads = [demo_thread 0, demo_thread 5, demo_thread 0]\<rparr>"
  let ?fh1 = "\<lparr>content = [0x2A], position = 1\<rparr>"
  let ?fh2 = "\<lparr>content = [0x2A], position = 5\<rparr>"
  have h1: "sysinfo ?mf = Some ?si" and h2: "threads ?mf = Some ?tl"
    by (simp_all add: demo_file_def)
  have h3: "truth_SystemInfo demo_externals ?si" and h4: "truth_ThreadList demo_externals ?tl"
    by (simp_all add: demo_externals_def)
  have h5: "tl_threads ?tl = [demo_thread 0] @ demo_thread 5 # [demo_thread 0]"
    by simp
  have h6: "thread_context_loop demo_externals (ProcessorArchitecture ?si) [demo_thread 0]
              (file_handle ?mf) = (None, [(demo_thread 0)\<lparr>ContextObject := Some (CONTEXT 0x2A)\<rparr>], ?fh1)"
    by (simp add: demo_file_def new_MinidumpFile_def demo_externals_def demo_thread_def
          thread_context_step_def byte_at_def seek_def)
  have h7: "ProcessorArchitecture ?si = AMD64 \<and>
              CONTEXT_parse demo_externals (seek ?fh1 (Rva (ThreadContext (demo_thread 5)))) =
                (Inl TruncatedReadError, ?fh2) \<or>
            ProcessorArchitecture ?si = INTEL \<and>
              WOW64_CONTEXT_parse demo_externals (seek ?fh1 (Rva (ThreadContext (demo_thread 5)))) =
                (Inl TruncatedReadError, ?fh2)"
    by (simp add: demo_externals_def demo_thread_def byte_at_def seek_def)
  from context_failure_ends_loop [OF h1 h2 h3 h4 h5 h6 h7] show ?thesis
    by simp
qed

theorem later_threads_not_decoded:
  "parse_thread_context demo_externals (demo_file [0x2A] AMD64 [demo_thread 5, demo_thread 0]) =
     (Some TruncatedReadError,
      (demo_file [0x2A] AMD64 [demo_thread 5, demo_thread 0])
        \<lparr>file_handle := \<lparr>content = [0x2A], position = 5\<rparr>\<rparr>) \<and>
   ContextObject (demo_thread 0) = None \<and>
   CONTEXT_parse demo_externals (seek \<lparr>content = [0x2A], position = 5\<rparr> (Rva (ThreadContext (demo_thread 0)))) =
     (Inr 0x2A, \<lparr>content = [0x2A], position = 1\<rparr>)"
  by (simp add: parse_thread_context_def demo_file_def new_MinidumpFile_def demo_externals_def
        demo_thread_def thread_context_step_def byte_at_def seek_def)

subsection \<open>The reader and the environment block\<close>

lemma from_bytes_little_simps [simp]:
  "from_bytes_little [] = 0"
  "from_bytes_little (b # bs) = unat b + 256 * from_bytes_little bs"
  by (simp_all add: from_bytes_little_def)

lemma find_in_disjoint_regions:
  "disjoint_regions rs \<Longrightarrow> r \<in> set rs \<Longrightarrow> start_address r \<le> a \<Longrightarrow> a < end_address r \<Longrightarrow>
   find (\<lambda>r. start_address r \<le> a \<and> a < end_address r) rs = Some r"
proof (induction rs)
  case Nil
  then show ?case by simp
next
  case (Cons h rs)
  show ?case
  proof (cases "h = r")
    case True
    with Cons.prems show ?thesis by simp
  next
    case False
    with Cons.prems have r_in: "r \<in> set rs" and no: "\<not> overlap h r"
      by (auto simp: list_all_iff)
    from no Cons.prems have "\<not> (start_address h \<le> a \<and> a < end_address h)"
      by (auto simp: overlap_def)
    with Cons.IH r_in Cons.prems show ?thesis by auto
  qed
qed

lemma move_read_rest:
  assumes "disjoint_regions (regions rd)" and "r \<in> set (regions rd)"
    and "start_address r \<le> a" and "a < end_address r"
    and "file_offset r + (end_address r - start_address r) \<le> length (source rd)"
  shows "\<exists>rd1 rd2. move rd a = Inr rd1 \<and> read_rest rd1 = Inr (region_bytes (source rd) r a, rd2) \<and>
           regions rd2 = regions rd \<and> source rd2 = source rd"
proof -
  have "find (\<lambda>r. start_address r \<le> a \<and> a < end_address r) (regions rd) = Some r"
    using assms(1-4) by (rule find_in_disjoint_regions)
  then have mv: "move rd a =
      Inr (rd\<lparr>current_segment := Some r, current_position := a, calls := calls rd @ [Move a]\<rparr>)"
    by (simp add: move_def)
  have "file_offset r + (a - start_address r) + (end_address r - a) \<le> length (source rd)"
    using assms(3-5) by simp
  then have "\<exists>rd2. read_rest (rd\<lparr>current_segment := Some r, current_position := a,
                 calls := calls rd @ [Move a]\<rparr>) = Inr (region_bytes (source rd) r a, rd2) \<and>
               regions rd2 = regions rd \<and> source rd2 = source rd"
    by (simp add: read_rest_def read_def region_bytes_def Let_def)
  with mv show ?thesis by simp
qed

lemma region_bytes_advance:
  "start_address r \<le> a \<Longrightarrow> region_bytes src r (a + k) = drop k (region_bytes src r a)"
  by (simp add: region_bytes_def drop_take add.commute add.left_commute)

lemma environment_loop_step:
  assumes "find_nul_nul buf = int n" and "n \<noteq> 0"
    and "decode_utf16 (take n buf @ [0]) = Inr s"
    and "str_split s (of_char CHR ''='') = name # val # others"
    and "va' = va + (length s + 1) * 2"
    and "move rd va' = Inr rd1"
    and "read_rest rd1 = Inr (buf', rd2)"
  shows "environment_loop rd va buf vars =
           environment_loop rd2 va' buf' (vars @ [\<lparr>env_name = name, env_value = val\<rparr>])"
  using assms
  by (subst environment_loop.simps) (simp add: and_then_def item_def)

lemma environment_loop_stop:
  "find_nul_nul buf = 0 \<or> find_nul_nul buf = - 1 \<Longrightarrow> environment_loop rd va buf vars = Inr (vars, rd)"
  by (subst environment_loop.simps) auto

lemma environment_loop_in_region:
  assumes "disjoint_regions (regions rd)" and "r \<in> set (regions rd)"
    and "file_offset r + (end_address r - start_address r) \<le> length (source rd)"
    and "start_address r \<le> va"
    and "buf = region_bytes (source rd) r va"
    and "find_nul_nul buf = int n" and "n \<noteq> 0"
    and "decode_utf16 (take n buf @ [0]) = Inr s"
    and "str_split s (of_char CHR ''='') = name # val # others"
    and "k = (length s + 1) * 2"
    and "va + k < end_address r"
  shows "\<exists>rd'. regions rd' = regions rd \<and> source rd' = source rd \<and>
           environment_loop rd va buf vars =
             environment_loop rd' (va + k) (drop k buf) (vars @ [\<lparr>env_name = name, env_value = val\<rparr>])"
proof -
  have "start_address r \<le> va + k" using assms(4) by simp
  from move_read_rest [OF assms(1,2) this assms(11) assms(3)] obtain rd1 rd2 where
    mv: "move rd (va + k) = Inr rd1"
    and rr: "read_rest rd1 = Inr (region_bytes (source rd) r (va + k), rd2)"
    and same: "regions rd2 = regions rd" "source rd2 = source rd"
    by blast
  have va': "va + k = va + (length s + 1) * 2" using assms(10) by simp
  have "environment_loop rd va buf vars =
          environment_loop rd2 (va + k) (region_bytes (source rd) r (va + k))
            (vars @ [\<lparr>env_name = name, env_value = val\<rparr>])"
    by (rule environment_loop_step [OF assms(6-9) va' mv rr])
  with same assms(4,5) show ?thesis
    by (auto simp: region_bytes_advance)
qed

text \<open>
  C5. When the two bytes at the field address read as length zero, the string decoder
  returns the empty string at once. The only calls it has made on the reader are the move
  to the field address and the read of the two length bytes: the buffer pointer at the
  field address plus the bitness-dependent offset is never looked at, nor are the offset
  and pointer-size tables.
\<close>

theorem empty_unicode_string:
  assumes "move buff_reader addr = Inr rd1"
    and "read rd1 2 = Inr (bs, rd2)"
    and "from_bytes_little bs = 0"
  shows "read_unicode_string_property ext buff_reader addr x64v = Inr ([], rd2) \<and>
         calls rd2 = calls buff_reader @ [Move addr, Read 2]"
proof -
  have "read_unicode_string_property ext buff_reader addr x64v = Inr ([], rd2)"
    using assms by (simp add: read_unicode_string_property_def and_then_def)
  moreover have "calls rd1 = calls buff_reader @ [Move addr]"
    using assms(1) by (auto simp: move_def split: option.splits)
  moreover have "calls rd2 = calls rd1 @ [Read 2]"
    using assms(2) by (auto simp: read_def Let_def split: option.splits if_splits)
  ultimately show ?thesis by simp
qed

theorem empty_unicode_string_witness:
  "\<exists>rd2. read_unicode_string_property demo_externals (demo_reader [0, 0, 0x78, 0x56, 0x34, 0x12])
       0x10000 (PyBool False) = Inr ([], rd2) \<and>
     calls rd2 = [Move 0x10000, Read 2]"
proof -
  let ?rd = "demo_reader [0, 0, 0x78, 0x56, 0x34, 0x12]"
  let ?r = "\<lparr>start_address = 0x10000, end_address = 0x10000 + 6, file_offset = 0\<rparr>"
  let ?rd1 = "?rd\<lparr>current_segment := Some ?r, current_position := 0x10000, calls := [Move 0x10000]\<rparr>"
  let ?rd2 = "?rd1\<lparr>current_position := 0x10002, calls := [Move 0x10000, Read 2]\<rparr>"
  have h1: "move ?rd 0x10000 = Inr ?rd1"
    by (simp add: demo_reader_def move_def)
  have h2: "read ?rd1 2 = Inr ([0, 0], ?rd2)"
    by (simp add: demo_reader_def read_def)
  have h3: "from_bytes_little [0, 0] = 0"
    by simp
  from empty_unicode_string [OF h1 h2 h3, of demo_externals "PyBool False"]
  show ?thesis by (simp add: demo_reader_def)
qed

text \<open>
  C7. Environment block scenario. Let the address space have no overlapping regions, and
  let the environment pointer lie in a region that the file backs and that holds, from the
  pointer on, the twenty bytes of the UTF-16 text \<open>A=1\<close>, NUL, \<open>B=22\<close>, NUL, NUL.
  Then the scan returns, and the environment list is exactly \<open>A\<close> with value \<open>1\<close>
  followed by \<open>B\<close> with value \<open>22\<close>, whatever follows the block in the region.
\<close>

theorem environment_block_scenario:
  assumes "disjoint_regions (regions rd)" and "r \<in> set (regions rd)"
    and "start_address r \<le> va" and "va + 20 \<le> end_address r"
    and "file_offset r + (end_address r - start_address r) \<le> length (source rd)"
    and "take 20 (drop (file_offset r + (va - start_address r)) (source rd)) =
           [0x41, 0, 0x3D, 0, 0x31, 0, 0, 0, 0x42, 0, 0x3D, 0, 0x32, 0, 0x32, 0, 0, 0, 0, 0]"
  shows "\<exists>rd'. read_environment rd va =
           Inr ([\<lparr>env_name = py_str ''A'', env_value = py_str ''1''\<rparr>,
                 \<lparr>env_name = py_str ''B'', env_value = py_str ''22''\<rparr>], rd')"
proof -
  let ?block = "[0x41, 0, 0x3D, 0, 0x31, 0, 0, 0, 0x42, 0, 0x3D, 0, 0x32, 0, 0x32, 0, 0, 0, 0, 0] :: byte list"
  let ?A = "\<lparr>env_name = [0x41], env_value = [0x31]\<rparr>"
  let ?B = "\<lparr>env_name = [0x42], env_value = [0x32, 0x32]\<rparr>"
  define buf where "buf = region_bytes (source rd) r va"
  define rest where "rest = drop 20 buf"
  have "take 20 buf = ?block"
    using assms(4,6) by (simp add: buf_def region_bytes_def min_def)
  then have buf: "buf = ?block @ rest"
    unfolding rest_def by (metis append_take_drop_id)
  have "va < end_address r" using assms(4) by simp
  from move_read_rest [OF assms(1,2,3) this assms(5)] obtain rd1 rd2 where
    mv: "move rd va = Inr rd1" and rr: "read_rest rd1 = Inr (buf, rd2)"
    and same2: "regions rd2 = regions rd" "source rd2 = source rd"
    unfolding buf_def by blast
  have start: "read_environment rd va = environment_loop rd2 va buf []"
    using mv rr by (simp add: read_environment_def and_then_def)
  have dis2: "disjoint_regions (regions rd2)" and in2: "r \<in> set (regions rd2)"
    and backed2: "file_offset r + (end_address r - start_address r) \<le> length (source rd2)"
    and buf2: "buf = region_bytes (source rd2) r va"
    using assms same2 by (simp_all add: buf_def)
  have f1: "find_nul_nul buf = int 5"
    by (simp add: buf find_nul_nul_def)
  have d1: "decode_utf16 (take 5 buf @ [0]) = Inr [0x41, 0x3D, 0x31]"
    by (simp add: buf decode_utf16_def utf16_unit_def is_surrogate_def and_then_def)
  have s1: "str_split [0x41, 0x3D, 0x31] (of_char CHR ''='') = [0x41] # [0x31] # []"
    by simp
  have k1: "8 = (length [0x41, 0x3D, 0x31 :: nat] + 1) * 2" by simp
  have e1: "va + 8 < end_address r" using assms(4) by simp
  from environment_loop_in_region [OF dis2 in2 backed2 assms(3) buf2 f1 _ d1 s1 k1 e1, of "[]"]
  obtain rd3 where same3: "regions rd3 = regions rd" "source rd3 = source rd"
    and step1: "environment_loop rd2 va buf [] = environment_loop rd3 (va + 8) (drop 8 buf) [?A]"
    using same2 by auto
  have dis3: "disjoint_regions (regions rd3)" and in3: "r \<in> set (regions rd3)"
    and backed3: "file_offset r + (end_address r - start_address r) \<le> length (source rd3)"
    and buf3: "drop 8 buf = region_bytes (source rd3) r (va + 8)"
    using assms same3 by (simp_all add: buf_def region_bytes_advance)
  have lo3: "start_address r \<le> va + 8" using assms(3) by simp
  have f2: "find_nul_nul (drop 8 buf) = int 7"
    by (simp add: buf find_nul_nul_def)
  have d2: "decode_utf16 (take 7 (drop 8 buf) @ [0]) = Inr [0x42, 0x3D, 0x32, 0x32]"
    by (simp add: buf decode_utf16_def utf16_unit_def is_surrogate_def and_then_def)
  have s2: "str_split [0x42, 0x3D, 0x32, 0x32] (of_char CHR ''='') = [0x42] # [0x32, 0x32] # []"
    by simp
  have k2: "10 = (length [0x42, 0x3D, 0x32, 0x32 :: nat] + 1) * 2" by simp
  have e2: "va + 8 + 10 < end_address r" using assms(4) by simp
  from environment_loop_in_region [OF dis3 in3 backed3 lo3 buf3 f2 _ d2 s2 k2 e2, of "[?A]"]
  obtain rd4 where
    step2: "environment_loop rd3 (va + 8) (drop 8 buf) [?A] =
              environment_loop rd4 (va + 8 + 10) (drop 10 (drop 8 buf)) [?A, ?B]"
    by auto
  have "find_nul_nul (drop 10 (drop 8 buf)) = 0"
    by (simp add: buf find_nul_nul_def)
  then have stop: "environment_loop rd4 (va + 8 + 10) (drop 10 (drop 8 buf)) [?A, ?B] = Inr ([?A, ?B], rd4)"
    by (simp add: environment_loop_stop)
  from start step1 step2 stop show ?thesis
    by (simp add: py_str_def)
qed


theorem environment_block_scenario_witness:
  "\<exists>rd'. read_environment
     (demo_reader [0x41, 0, 0x3D, 0, 0x31, 0, 0, 0, 0x42, 0, 0x3D, 0, 0x32, 0, 0x32, 0, 0, 0, 0, 0])
     0x10000 =
       Inr ([\<lparr>env_name = py_str ''A'', env_value = py_str ''1''\<rparr>,
             \<lparr>env_name = py_str ''B'', env_value = py_str ''22''\<rparr>], rd')"
  using environment_block_scenario
    [of "demo_reader [0x41, 0, 0x3D, 0, 0x31, 0, 0, 0, 0x42, 0, 0x3D, 0, 0x32, 0, 0x32, 0, 0, 0, 0, 0]"
        "\<lparr>start_address = 0x10000, end_address = 0x10000 + 20, file_offset = 0\<rparr>" "0x10000"]
  by (simp add: demo_reader_def overlap_def)

text \<open>
  C6. An entry is cut at every \<open>=\<close> and the value is the second piece
  (\<^verbatim>\<open>decoded_env.split("=")[1]\<close>), not the remainder after the first \<open>=\<close>. On the
  block that holds the one entry \<open>A=b=c\<close> the scan returns the name \<open>A\<close> with the
  value \<open>b\<close>; the text \<open>=c\<close> is lost.
\<close>

theorem value_cut_at_second_equals_sign:
  "\<exists>rd'. read_environment
     (demo_reader [0x41, 0, 0x3D, 0, 0x62, 0, 0x3D, 0, 0x63, 0, 0, 0, 0, 0]) 0x10000 =
       Inr ([\<lparr>env_name = py_str ''A'', env_value = py_str ''b''\<rparr>], rd')"
proof -
  let ?bs = "[0x41, 0, 0x3D, 0, 0x62, 0, 0x3D, 0, 0x63, 0, 0, 0, 0, 0] :: byte list"
  let ?rd = "demo_reader ?bs"
  let ?r = "\<lparr>start_address = 0x10000, end_address = 0x10000 + 14, file_offset = 0\<rparr>"
  let ?A = "\<lparr>env_name = [0x41], env_value = [0x62]\<rparr>"
  have dis: "disjoint_regions (regions ?rd)" and rin: "?r \<in> set (regions ?rd)"
    and backed: "file_offset ?r + (end_address ?r - start_address ?r) \<le> length (source ?rd)"
    by (simp_all add: demo_reader_def)
  have lo: "start_address ?r \<le> 0x10000" and hi: "0x10000 < end_address ?r"
    by simp_all
  have buf: "region_bytes (source ?rd) ?r 0x10000 = ?bs"
    by (simp add: region_bytes_def demo_reader_def)
  from move_read_rest [OF dis rin lo hi backed] obtain rd1 rd2 where
    mv: "move ?rd 0x10000 = Inr rd1" and rr: "read_rest rd1 = Inr (?bs, rd2)"
    and same2: "regions rd2 = regions ?rd" "source rd2 = source ?rd"
    unfolding buf by blast
  have start: "read_environment ?rd 0x10000 = environment_loop rd2 0x10000 ?bs []"
    using mv rr by (simp add: read_environment_def and_then_def)
  have dis2: "disjoint_regions (regions rd2)" and in2: "?r \<in> set (regions rd2)"
    and backed2: "file_offset ?r + (end_address ?r - start_address ?r) \<le> length (source rd2)"
    and buf2: "?bs = region_bytes (source rd2) ?r 0x10000"
    using dis rin backed buf same2 by simp_all
  have f1: "find_nul_nul ?bs = int 9"
    by (simp add: find_nul_nul_def)
  have d1: "decode_utf16 (take 9 ?bs @ [0]) = Inr [0x41, 0x3D, 0x62, 0x3D, 0x63]"
    by (simp add: decode_utf16_def utf16_unit_def is_surrogate_def and_then_def)
  have s1: "str_split [0x41, 0x3D, 0x62, 0x3D, 0x63] (of_char CHR ''='') = [0x41] # [0x62] # [[0x63]]"
    by simp
  have k1: "12 = (length [0x41, 0x3D, 0x62, 0x3D, 0x63 :: nat] + 1) * 2" by simp
  have e1: "0x10000 + 12 < end_address ?r" by simp
  from environment_loop_in_region [OF dis2 in2 backed2 lo buf2 f1 _ d1 s1 k1 e1, of "[]"]
  obtain rd3 where
    step1: "environment_loop rd2 0x10000 ?bs [] = environment_loop rd3 (0x10000 + 12) (drop 12 ?bs) [?A]"
    by auto
  have "find_nul_nul (drop 12 ?bs) = 0"
    by (simp add: find_nul_nul_def)
  then have "environment_loop rd3 (0x10000 + 12) (drop 12 ?bs) [?A] = Inr ([?A], rd3)"
    by (simp add: environment_loop_stop)
  with start step1 show ?thesis
    by (simp add: py_str_def)
qed

subsection \<open>Duplicate streams\<close>

lemma directory_step_stores:
  "stream_decoder ext ty = Some decode \<Longrightarrow> directory_step ext d ty mf = Inr mf2 \<Longrightarrow>
   \<exists>v fh. decode d (file_handle mf) = Inr (v, fh) \<and> stream_field ty mf2 = Some v"
  by (cases ty) (auto simp: store_def and_then_def decoded_as_def split: sum.splits)

lemma directory_step_keeps:
  "ty' \<noteq> ty \<Longrightarrow> directory_step ext d ty' mf = Inr mf2 \<Longrightarrow>
   stream_field ty mf2 = stream_field ty mf"
  by (cases ty'; cases ty) (auto simp: store_def and_then_def split: sum.splits)


lemma directories_loop_append:
  "directories_loop ext (xs @ ys) mf =
     and_then (directories_loop ext xs mf) (directories_loop ext ys)"
proof (induction xs arbitrary: mf)
  case Nil
  show ?case by (simp add: and_then_def)
next
  case (Cons d xs)
  show ?case
    by (cases "directory_step ext d (StreamType d) mf") (simp_all add: and_then_def Cons.IH)
qed

lemma directories_loop_keeps:
  "\<forall>d \<in> set ds. StreamType d \<noteq> ty \<Longrightarrow> directories_loop ext ds mf = Inr mf' \<Longrightarrow>
   stream_field ty mf' = stream_field ty mf"
proof (induction ds arbitrary: mf)
  case Nil
  then show ?case by simp
next
  case (Cons d ds)
  from Cons.prems(2) obtain mf1 where
    step: "directory_step ext d (StreamType d) mf = Inr mf1"
    and rest: "directories_loop ext ds mf1 = Inr mf'"
    by (cases "directory_step ext d (StreamType d) mf") (simp_all add: and_then_def)
  from Cons.prems(1) have "StreamType d \<noteq> ty" by simp
  from directory_step_keeps [OF this step] Cons.IH [OF _ rest] Cons.prems(1)
  show ?case by simp
qed

lemma thread_context_step_forget:
  "thread_context_step ext arch t fh = (Inr t', fh') \<Longrightarrow>
   t'\<lparr>ContextObject := None\<rparr> = t\<lparr>ContextObject := None\<rparr>"
  by (auto simp: thread_context_step_def Let_def split: if_splits prod.splits sum.splits)

lemma thread_context_loop_forget:
  "thread_context_loop ext arch ts fh = (r, ts', fh') \<Longrightarrow>
   map (\<lambda>t. t\<lparr>ContextObject := None\<rparr>) ts' = map (\<lambda>t. t\<lparr>ContextObject := None\<rparr>) ts"
proof (induction ts arbitrary: fh ts' r fh')
  case Nil
  then show ?case by simp
next
  case (Cons t ts)
  obtain res fh2 where step: "thread_context_step ext arch t fh = (res, fh2)"
    by (cases "thread_context_step ext arch t fh")
  show ?case
  proof (cases res)
    case (Inl e)
    with step Cons.prems show ?thesis by auto
  next
    case (Inr t')
    obtain r0 p0 f0 where rec: "thread_context_loop ext arch ts fh2 = (r0, p0, f0)"
      by (cases "thread_context_loop ext arch ts fh2")
    with step Inr Cons.prems have "ts' = t' # p0" by simp
    with Cons.IH [OF rec] thread_context_step_forget [of ext arch t fh t' fh2] step Inr
    show ?thesis by simp
  qed
qed

lemma parse_thread_context_forget:
  "map_option forget_contexts (stream_field ty (snd (parse_thread_context ext mf))) =
   map_option forget_contexts (stream_field ty mf)"
proof (cases "\<exists>si tlist. sysinfo mf = Some si \<and> threads mf = Some tlist \<and>
                truth_SystemInfo ext si \<and> truth_ThreadList ext tlist")
  case False
  then have "parse_thread_context ext mf = (None, mf)"
    by (auto simp: parse_thread_context_def split: option.splits)
  then show ?thesis by simp
next
  case True
  then obtain si tlist where h: "sysinfo mf = Some si" "threads mf = Some tlist"
    "truth_SystemInfo ext si" "truth_ThreadList ext tlist" by blast
  obtain r ts fh' where
    loop: "thread_context_loop ext (ProcessorArchitecture si) (tl_threads tlist) (file_handle mf) = (r, ts, fh')"
    by (cases "thread_context_loop ext (ProcessorArchitecture si) (tl_threads tlist) (file_handle mf)")
  note res = parse_thread_context_loop [OF h loop]
  note same = thread_context_loop_forget [OF loop]
  show ?thesis
    by (cases ty) (simp_all add: res h forget_contexts_def same)
qed

text \<open>
  C9. Duplicate streams, last wins. Let \<^verbatim>\<open>__parse_directories\<close> complete on a directory
  table in which the entry \<open>d\<close> is the last one of its stream type, a type whose branch
  stores what a decoder returns. Then the field of that type holds what the decoder
  returned for \<open>d\<close>, called on the byte source as the entries before \<open>d\<close> left it:
  whatever earlier entries of the same type stored has been overwritten, and no later
  entry touches the field. (The thread list is the same object with the register contexts
  filled in afterwards.)
\<close>

theorem duplicate_streams_last_wins:
  assumes "parse_directories ext mf = Inr mf'"
    and "directories mf = before @ d # after"
    and "\<forall>d' \<in> set after. StreamType d' \<noteq> StreamType d"
    and "stream_decoder ext (StreamType d) = Some decode"
  shows "\<exists>mf1 v fh.
           directories_loop ext before mf = Inr mf1 \<and>
           decode d (file_handle mf1) = Inr (v, fh) \<and>
           map_option forget_contexts (stream_field (StreamType d) mf') = Some (forget_contexts v)"
proof -
  from assms(1) obtain mfl where
    loop: "directories_loop ext (directories mf) mf = Inr mfl"
    and fin: "mf' = snd (parse_thread_context ext mfl)"
    by (cases "directories_loop ext (directories mf) mf")
       (auto simp: parse_directories_def and_then_def)
  from loop assms(2) obtain mf1 where
    l1: "directories_loop ext before mf = Inr mf1"
    and l2: "directories_loop ext (d # after) mf1 = Inr mfl"
    by (cases "directories_loop ext before mf")
       (simp_all add: directories_loop_append and_then_def)
  from l2 obtain mf2 where
    step: "directory_step ext d (StreamType d) mf1 = Inr mf2"
    and l3: "directories_loop ext after mf2 = Inr mfl"
    by (cases "directory_step ext d (StreamType d) mf1") (simp_all add: and_then_def)
  from directory_step_stores [OF assms(4) step] obtain v fh where
    dec: "decode d (file_handle mf1) = Inr (v, fh)"
    and stored: "stream_field (StreamType d) mf2 = Some v"
    by blast
  have "stream_field (StreamType d) mfl = Some v"
    using directories_loop_keeps [OF assms(3) l3] stored by simp
  then have "map_option forget_contexts (stream_field (StreamType d) mf') = Some (forget_contexts v)"
    using parse_thread_context_forget [of "StreamType d" ext mfl] fin by simp
  with l1 dec show ?thesis by blast
qed


theorem duplicate_streams_last_wins_witness:
  "\<exists>mf'. parse_directories demo_externals
       ((new_MinidumpFile \<lparr>content = [], position = 0\<rparr>)
          \<lparr>directories := [demo_directory ThreadListStream 100, demo_directory ThreadListStream 200]\<rparr>) =
         Inr mf' \<and>
     map_option forget_contexts (stream_field ThreadListStream mf') =
       Some (forget_contexts (ThreadListValue
         \<lparr>tl_threads = [\<lparr>Teb = 200, ThreadContext = \<lparr>DataSize = 1, Rva = 0\<rparr>,
                         ContextObject = None\<rparr>]\<rparr>))"
proof -
  let ?dA = "demo_directory ThreadListStream 100"
  let ?dB = "demo_directory ThreadListStream 200"
  let ?mf = "(new_MinidumpFile \<lparr>content = [], position = 0\<rparr> :: nat MinidumpFile)
               \<lparr>directories := [?dA, ?dB]\<rparr>"
  let ?tl = "\<lparr>tl_threads = [\<lparr>Teb = 200, ThreadContext = \<lparr>DataSize = 1, Rva = 0\<rparr>,
                              ContextObject = None :: nat context_object option\<rparr>]\<rparr>"
  let ?mf' = "?mf\<lparr>file_handle := \<lparr>content = [], position = 200\<rparr>, threads := Some ?tl\<rparr>"
  let ?decode = "\<lambda>d fh. decoded_as ThreadListValue (MinidumpThreadList_parse demo_externals d fh)"
  have h1: "parse_directories demo_externals ?mf = Inr ?mf'"
    by (simp add: parse_directories_def parse_thread_context_def new_MinidumpFile_def
          demo_directory_def demo_externals_def store_def and_then_def seek_def)
  have h2: "directories ?mf = [?dA] @ ?dB # []"
    by simp
  have h3: "\<forall>d' \<in> set []. StreamType d' \<noteq> StreamType ?dB"
    by simp
  have h4: "stream_decoder demo_externals (StreamType ?dB) = Some ?decode"
    by (simp add: demo_directory_def)
  from duplicate_streams_last_wins [OF h1 h2 h3 h4] obtain mf1 v fh where
    "directories_loop demo_externals [?dA] ?mf = Inr mf1"
    and dec: "?decode ?dB (file_handle mf1) = Inr (v, fh)"
    and fld: "map_option forget_contexts (stream_field (StreamType ?dB) ?mf') = Some (forget_contexts v)"
    by blast
  from dec have "v = ThreadListValue ?tl"
    by (auto simp: decoded_as_def and_then_def demo_externals_def demo_directory_def)
  with fld h1 show ?thesis
    by (simp add: demo_directory_def)
qed

subsection \<open>A failure of the PEB walk\<close>

text \<open>
  C2. \<^verbatim>\<open>_parse\<close> calls \<^verbatim>\<open>__parse_peb\<close> with no handler, unlike the thread contexts,
  which \<^verbatim>\<open>__parse_directories\<close> decodes inside \<^verbatim>\<open>try\<close>/\<^verbatim>\<open>except\<close>. When the
  header and the directories have been parsed and the PEB walk raises, the exception
  leaves \<^verbatim>\<open>parse_buff\<close>: the caller gets the exception and no model. The example is a
  dump with a thread list and a 32-bit region list whose only region does not hold the
  TEB of the first thread.
\<close>

theorem peb_failure_aborts_parse:
  assumes "parse_header ext (new_MinidumpFile buffer) = Inr mf1"
    and "parse_directories ext mf1 = Inr mf2"
    and "parse_peb ext mf2 = Inl e"
  shows "parse_buff ext buffer = Inl e"
  using assms by (simp add: parse_buff_def internal_parse_def and_then_def)

theorem peb_failure_aborts_parse_witness:
  "parse_buff demo_externals \<lparr>content = [], position = 0\<rparr> = Inl UnmappedAddressError"
proof -
  let ?dT = "\<lparr>StreamType = ThreadListStream, Location = \<lparr>DataSize = 52, Rva = 0x7FFDE000\<rparr>\<rparr>"
  let ?dM = "\<lparr>StreamType = MemoryListStream, Location = \<lparr>DataSize = 20, Rva = 0x10000\<rparr>\<rparr>"
  let ?mf0 = "new_MinidumpFile \<lparr>content = [], position = 0\<rparr> :: nat MinidumpFile"
  let ?mf1 = "?mf0\<lparr>file_handle := \<lparr>content = [], position = 56\<rparr>,
                    header := Some \<lparr>NumberOfStreams = 2, StreamDirectoryRva = 32\<rparr>,
                    directories := [?dT, ?dM]\<rparr>"
  let ?mf2 = "?mf1\<lparr>file_handle := \<lparr>content = [], position = 0x10000\<rparr>,
                    threads := Some \<lparr>tl_threads = [\<lparr>Teb = 0x7FFDE000,
                                                     ThreadContext = \<lparr>DataSize = 1, Rva = 0\<rparr>,
                                                     ContextObject = None\<rparr>]\<rparr>,
                    memory_segments := Some \<lparr>mem_segments = [\<lparr>start_virtual_address = 0x10000,
                                                     Memory = \<lparr>DataSize = 16, Rva = 0\<rparr>\<rparr>]\<rparr>\<rparr>"
  have upt2: "[0..<2] = [0, Suc 0]"
    by (simp add: numeral_2_eq_2)
  have h1: "parse_header demo_externals ?mf0 = Inr ?mf1"
    by (simp add: parse_header_def upt2 new_MinidumpFile_def demo_externals_def and_then_def seek_def)
  have h2: "parse_directories demo_externals ?mf1 = Inr ?mf2"
    by (simp add: parse_directories_def parse_thread_context_def new_MinidumpFile_def
          demo_externals_def store_def and_then_def seek_def)
  have rd: "get_buffered_reader ?mf2 =
      Inr \<lparr>regions = [\<lparr>start_address = 0x10000, end_address = 0x10010, file_offset = 0\<rparr>],
           source = [], current_segment = None, current_position = 0, calls = []\<rparr>"
    by (simp add: get_buffered_reader_def region_32_def overlap_def new_MinidumpFile_def)
  have flag: "x64_flag demo_externals ?mf2 = PyBool False"
    by (simp add: x64_flag_def iter_MemoryList_def demo_externals_def new_MinidumpFile_def)
  have th: "first_thread ?mf2 = Inr \<lparr>Teb = 0x7FFDE000, ThreadContext = \<lparr>DataSize = 1, Rva = 0\<rparr>,
                                     ContextObject = None\<rparr>"
    by (simp add: first_thread_def item_def)
  have offs: "OFFSETS demo_externals (PyBool False) = Inr (windows_offsets False)"
    by (simp add: demo_externals_def)
  have h3: "parse_peb demo_externals ?mf2 = Inl UnmappedAddressError"
    unfolding parse_peb_def Let_def flag rd th offs
    by (simp add: and_then_def read_pointer_def move_def windows_offsets_def)
  from peb_failure_aborts_parse [OF h1 h2 h3] show ?thesis .
qed

end
